theory Spec2Isabelle
  imports Complex_Main
begin

section \<open>One-day OIS forwards: a model of ois\_curves.py\<close>

text \<open>
  The source is one Python script. Its function \<open>fwd_curve\<close> (lines 22 to 104) builds
  an OIS discount curve with the QuantLib library and reads one-day forward rates from
  it; the script's loop over currencies (lines 162 to 182) calls it once per currency.

  The Python code is modelled as it is written. QuantLib is not part of the
  repository, so the calls the script makes into it are modelled in two ways:
  \<^item> date arithmetic, business-day adjustment, the day counters, the schedule and the
    formula of \<open>forwardRate\<close> are written out as functions, each with the library call
    it stands for (real numbers take the place of doubles);
  \<^item> the holiday tables, the construction of rate helpers and of the curve, and the
    discount factors that the bootstrap produces are parameters, collected in the
    record \<open>quantlib\<close>.
  Calls to \<open>logging\<close> only print and are left out.
\<close>

subsection \<open>Python values and the ways a call can end\<close>

text \<open>
  The exceptions that can reach the script. QuantLib's Python layer raises every
  library error as \<open>RuntimeError\<close>, with the library's message.
\<close>

datatype exn = RuntimeError string | ValueError | IndexError | TypeError

text \<open>
  A call that does not return either raises an exception or, through \<open>exit()\<close>, ends
  the interpreter (Python's SystemExit, which no handler of the script catches).
\<close>

datatype stop = Exit | Raise exn

text \<open>
  A cell of the \<open>Term\<close> column: pandas gives integers when every cell is one, strings
  when some cell is not a number, and NaN for an empty cell.
\<close>

datatype py_value = PyInt int | PyStr string | PyNaN

text \<open>\<open>str.upper()\<close>, on ASCII: the letters a to z change, every other character stays.\<close>

definition upper_char :: "char \<Rightarrow> char" where
  "upper_char c =
     (case map_of (zip ''abcdefghijklmnopqrstuvwxyz'' ''ABCDEFGHIJKLMNOPQRSTUVWXYZ'') c of
        Some u \<Rightarrow> u
      | None \<Rightarrow> c)"

definition upper :: "string \<Rightarrow> string" where
  "upper s = map upper_char s"

text \<open>
  \<open>int(x)\<close>. An integer is returned as it is and NaN raises ValueError. A string is
  stripped of surrounding white space and must then be an optional sign followed by
  decimal digits, where single underscores may stand between digits; anything else
  raises ValueError.
\<close>

definition is_space :: "char \<Rightarrow> bool" where
  "is_space c = (c \<in> set [CHR '' '', CHR 0x09, CHR 0x0A, CHR 0x0B, CHR 0x0C, CHR 0x0D])"

definition strip :: "string \<Rightarrow> string" where
  "strip s = rev (dropWhile is_space (rev (dropWhile is_space s)))"

definition digit_of :: "char \<Rightarrow> int option" where
  "digit_of c = map_of (zip ''0123456789'' [0, 1, 2, 3, 4, 5, 6, 7, 8, 9]) c"

text \<open>
  The digits of a literal, read left to right: \<open>acc\<close> is the value so far, \<open>after_digit\<close>
  says whether the previous character was a digit (an underscore may only follow one,
  and the literal may not end with one).
\<close>

fun digits_value :: "string \<Rightarrow> int \<Rightarrow> bool \<Rightarrow> int option" where
  "digits_value [] acc after_digit = (if after_digit then Some acc else None)"
| "digits_value (c # cs) acc after_digit =
     (case digit_of c of
        Some d \<Rightarrow> digits_value cs (10 * acc + d) True
      | None \<Rightarrow>
          if c = CHR ''_'' \<and> after_digit then digits_value cs acc False else None)"

definition int_of_string :: "string \<Rightarrow> int option" where
  "int_of_string s =
     (case strip s of
        [] \<Rightarrow> None
      | c # cs \<Rightarrow>
          if c = CHR ''-'' then map_option uminus (digits_value cs 0 False)
          else if c = CHR ''+'' then digits_value cs 0 False
          else digits_value (c # cs) 0 False)"

fun py_int :: "py_value \<Rightarrow> exn + int" where
  "py_int (PyInt n) = Inr n"
| "py_int (PyStr s) = (case int_of_string s of Some n \<Rightarrow> Inr n | None \<Rightarrow> Inl ValueError)"
| "py_int PyNaN = Inl ValueError"

subsection \<open>QuantLib: dates\<close>

text \<open>
  A QuantLib \<open>Date\<close> is a serial number of days, 367 for 1 January 1901 up to 109574
  for 31 December 2199; the library refuses every date outside this range.
  A serial number that is a multiple of 7 is a Saturday.
\<close>

type_synonym date = int

definition maximumSerialNumber :: int where
  "maximumSerialNumber = 109574"

definition isLeap :: "int \<Rightarrow> bool" where
  "isLeap y = (if y mod 100 = 0 then y mod 400 = 0 else y mod 4 = 0)"

definition monthLength :: "int \<Rightarrow> bool \<Rightarrow> int" where
  "monthLength m leap =
     (if m = 2 then (if leap then 29 else 28)
      else if m = 4 \<or> m = 6 \<or> m = 9 \<or> m = 11 then 30
      else 31)"

text \<open>
  The serial number of a day of the Gregorian calendar and back (\<open>Date(d, m, y)\<close>,
  and \<open>year()\<close>, \<open>month()\<close>, \<open>dayOfMonth()\<close>). The library reads them from tables;
  here they are computed, counting years from 1 March.
\<close>

definition serial_of_ymd :: "int \<Rightarrow> int \<Rightarrow> int \<Rightarrow> int" where
  "serial_of_ymd y m d =
     (let y1 = (if m \<le> 2 then y - 1 else y);
          era = y1 div 400;
          yoe = y1 - era * 400;
          mp = (if m > 2 then m - 3 else m + 9);
          doy = (153 * mp + 2) div 5 + d - 1;
          doe = yoe * 365 + yoe div 4 - yoe div 100 + doy
      in era * 146097 + doe - 693899)"

definition ymd_of_serial :: "date \<Rightarrow> int \<times> int \<times> int" where
  "ymd_of_serial s =
     (let z = s + 693899;
          era = z div 146097;
          doe = z - era * 146097;
          yoe = (doe - doe div 1460 + doe div 36524 - doe div 146096) div 365;
          doy = doe - (365 * yoe + yoe div 4 - yoe div 100);
          mp = (5 * doy + 2) div 153;
          d = doy - (153 * mp + 2) div 5 + 1;
          m = (if mp < 10 then mp + 3 else mp - 9);
          y = yoe + era * 400
      in (if m \<le> 2 then y + 1 else y, m, d))"

text \<open>\<open>Date(d, m, y)\<close>: the constructor checks the year, the month and the day.\<close>

definition mkDate :: "int \<Rightarrow> int \<Rightarrow> int \<Rightarrow> string + date" where
  "mkDate d m y =
     (if \<not> (1900 < y \<and> y < 2200) then Inl ''year out of bound. It must be in [1901,2199]''
      else if \<not> (0 < m \<and> m < 13) then Inl ''month outside January-December range [1,12]''
      else if \<not> (0 < d \<and> d \<le> monthLength m (isLeap y)) then Inl ''day outside month day-range''
      else Inr (serial_of_ymd y m d))"

text \<open>
  A Python \<open>datetime\<close>, of which the script only uses the day. \<open>Date.from_date(x)\<close>
  is \<open>Date(x.day, x.month, x.year)\<close>.
\<close>

record datetime =
  dt_year :: int
  dt_month :: int
  dt_day :: int

definition from_date :: "datetime \<Rightarrow> string + date" where
  "from_date x = mkDate (dt_day x) (dt_month x) (dt_year x)"

subsection \<open>QuantLib: calendars, periods, day counters\<close>

datatype time_unit = Days | Weeks | Months | Years

datatype calendar = TARGET | UnitedKingdom | UnitedStates | Japan | Australia | Canada

datatype day_counter = Actual360 | Actual365Fixed

text \<open>
  \<open>Period(n, unit)\<close> holds a C integer: the Python layer refuses an integer that does
  not fit into 32 bits.
\<close>

record period =
  p_length :: int
  p_units :: time_unit

definition mkPeriod :: "int \<Rightarrow> time_unit \<Rightarrow> exn + period" where
  "mkPeriod n u =
     (if - (2 ^ 31) \<le> n \<and> n < 2 ^ 31 then Inr \<lparr>p_length = n, p_units = u\<rparr>
      else Inl TypeError)"

record overnight_index =
  familyName :: string
  fixingDays :: nat
  index_currency :: string
  fixingCalendar :: calendar
  index_dayCounter :: day_counter

text \<open>The arguments of \<open>OISRateHelper(settlementDays, tenor, fixedRate, overnightIndex)\<close>.\<close>

record ois_rate_helper =
  h_settlementDays :: nat
  h_tenor :: period
  h_fixedRate :: real
  h_overnightIndex :: overnight_index

text \<open>
  The arguments of \<open>PiecewiseLogCubicDiscount(settlementDays, calendar, instruments,
  dayCounter)\<close>. A curve built this way has no fixed reference date: it follows the
  library's global evaluation date.
\<close>

record discount_curve =
  c_settlementDays :: nat
  c_calendar :: calendar
  c_instruments :: "ois_rate_helper list"
  c_dayCounter :: day_counter

text \<open>
  The parts of the library that are parameters of the model. A library call that
  fails gives \<open>Inl\<close> of the message, which Python sees as a RuntimeError.
  \<^item> \<open>holidays cal d\<close>: \<open>d\<close> is a holiday of \<open>cal\<close> on a weekday (the holiday tables);
  \<^item> \<open>OISRateHelper_error today h\<close>: the message with which the constructor of the
    helper \<open>h\<close> fails when the evaluation date is \<open>today\<close>, if it fails;
  \<^item> \<open>PiecewiseLogCubicDiscount_error c\<close>: the same for the constructor of the curve;
  \<^item> \<open>discount today c d\<close>: the discount factor of the curve \<open>c\<close> at the date \<open>d\<close> when
    the evaluation date is \<open>today\<close>. The first request runs the bootstrap, and the call
    fails when the bootstrap does or when \<open>d\<close> is outside the range of the curve
    (the script never enables extrapolation).
\<close>

record quantlib =
  holidays :: "calendar \<Rightarrow> date \<Rightarrow> bool"
  OISRateHelper_error :: "date \<Rightarrow> ois_rate_helper \<Rightarrow> string option"
  PiecewiseLogCubicDiscount_error :: "discount_curve \<Rightarrow> string option"
  discount :: "date \<Rightarrow> discount_curve \<Rightarrow> date \<Rightarrow> string + real"

text \<open>The library's only global state that the script touches: \<open>Settings.evaluationDate\<close>.\<close>

record settings =
  evaluationDate :: date

definition isWeekend :: "date \<Rightarrow> bool" where
  "isWeekend d = (d mod 7 = 0 \<or> d mod 7 = 1)"

definition isHoliday :: "quantlib \<Rightarrow> calendar \<Rightarrow> date \<Rightarrow> bool" where
  "isHoliday lib cal d = (isWeekend d \<or> holidays lib cal d)"

text \<open>
  \<open>calendar.adjust(d)\<close> with the convention Following: the first business day from
  \<open>d\<close> on. Stepping past the last date of the library is an error.
\<close>

function adjust :: "(date \<Rightarrow> bool) \<Rightarrow> date \<Rightarrow> string + date" where
  "adjust hol d =
     (if hol d then
        (if d + 1 \<le> maximumSerialNumber then adjust hol (d + 1)
         else Inl ''Date's serial number is outside allowed range'')
      else Inr d)"
  by pat_completeness auto
termination
  by (relation "measure (\<lambda>(hol, d). nat (maximumSerialNumber - d))") auto

declare adjust.simps [simp del]

text \<open>
  \<open>calendar.advance(d, n, Days)\<close> for \<open>n \<ge> 0\<close>: no step means \<open>adjust\<close>; otherwise
  \<open>n\<close> times the next day, and on from there to a business day.
\<close>

definition next_business_day :: "(date \<Rightarrow> bool) \<Rightarrow> date \<Rightarrow> string + date" where
  "next_business_day hol d =
     (if d + 1 \<le> maximumSerialNumber then adjust hol (d + 1)
      else Inl ''Date's serial number is outside allowed range'')"

primrec business_days_forward :: "(date \<Rightarrow> bool) \<Rightarrow> nat \<Rightarrow> date \<Rightarrow> string + date" where
  "business_days_forward hol 0 d = Inr d"
| "business_days_forward hol (Suc n) d =
     (case next_business_day hol d of
        Inl msg \<Rightarrow> Inl msg
      | Inr d1 \<Rightarrow> business_days_forward hol n d1)"

definition advance_days :: "quantlib \<Rightarrow> calendar \<Rightarrow> date \<Rightarrow> nat \<Rightarrow> string + date" where
  "advance_days lib cal d n =
     (if n = 0 then adjust (isHoliday lib cal) d
      else business_days_forward (isHoliday lib cal) n d)"

text \<open>
  \<open>calendar.advance(d, n, Years)\<close> for \<open>n \<noteq> 0\<close>: the same day and month \<open>n\<close> years
  later (28 February for a 29 February that does not exist), adjusted to a business
  day.
\<close>

definition advance_years :: "quantlib \<Rightarrow> calendar \<Rightarrow> date \<Rightarrow> int \<Rightarrow> string + date" where
  "advance_years lib cal d n =
     (case ymd_of_serial d of
        (y, m, dd) \<Rightarrow>
          if \<not> (1900 \<le> y + n \<and> y + n \<le> 2199)
          then Inl ''year out of bounds. It must be in [1901,2199]''
          else
            (case mkDate (if dd = 29 \<and> m = 2 \<and> \<not> isLeap (y + n) then 28 else dd) m (y + n) of
               Inl msg \<Rightarrow> Inl msg
             | Inr d1 \<Rightarrow> adjust (isHoliday lib cal) d1))"

text \<open>\<open>dayCounter.yearFraction(d1, d2)\<close>.\<close>

fun yearFraction :: "day_counter \<Rightarrow> date \<Rightarrow> date \<Rightarrow> real" where
  "yearFraction Actual360 d1 d2 = real_of_int (d2 - d1) / 360"
| "yearFraction Actual365Fixed d1 d2 = real_of_int (d2 - d1) / 365"

subsection \<open>QuantLib: schedules and forward rates\<close>

text \<open>
  \<open>MakeSchedule(effectiveDate, terminationDate, Period("1d"))\<close>. No calendar and no
  convention are given, so no date is adjusted: the schedule holds every day from
  the effective date to the termination date, both included. The library refuses
  an effective date that is not before the termination date.
\<close>

definition MakeSchedule :: "date \<Rightarrow> date \<Rightarrow> string + date list" where
  "MakeSchedule effectiveDate terminationDate =
     (if effectiveDate < terminationDate then Inr [effectiveDate..terminationDate]
      else Inl ''effective date later than or equal to termination date'')"

text \<open>
  \<open>InterestRate::impliedRate\<close> for continuous compounding: the rate \<open>r\<close> for which
  \<open>exp (r * t)\<close> is the compound factor.
\<close>

definition impliedRate :: "real \<Rightarrow> real \<Rightarrow> string + real" where
  "impliedRate compound t =
     (if \<not> 0 < compound then Inl ''positive compound factor required''
      else if compound = 1 then
        (if 0 \<le> t then Inr 0 else Inl ''non negative time (t) required'')
      else if 0 < t then Inr (ln compound / t)
      else Inl ''positive time (t) required'')"

text \<open>
  \<open>curve.forwardRate(d1, d2, dayCounter, Continuous).rate()\<close> for \<open>d1\<close> before \<open>d2\<close>:
  the rate implied by the ratio of the two discount factors over the year fraction
  from \<open>d1\<close> to \<open>d2\<close>. The library refuses \<open>d1\<close> after \<open>d2\<close>; for \<open>d1 = d2\<close> it
  gives an instantaneous forward, which is not modelled: the script asks for the
  forward from a day to the next business day only, which is a later day
  (lemma \<open>advance_days_later\<close>).
\<close>

definition forwardRate ::
  "quantlib \<Rightarrow> date \<Rightarrow> discount_curve \<Rightarrow> date \<Rightarrow> date \<Rightarrow> day_counter \<Rightarrow> string + real" where
  "forwardRate lib today curve d1 d2 dc =
     (if d1 < d2 then
        (case discount lib today curve d1 of
           Inl msg \<Rightarrow> Inl msg
         | Inr df1 \<Rightarrow>
             (case discount lib today curve d2 of
                Inl msg \<Rightarrow> Inl msg
              | Inr df2 \<Rightarrow> impliedRate (df1 / df2) (yearFraction dc d1 d2)))
      else Inl ''d1 not before d2'')"

text \<open>
  \<open>curve.referenceDate()\<close>: the evaluation date, moved by the curve's settlement days
  on its calendar.
\<close>

definition referenceDate :: "quantlib \<Rightarrow> settings \<Rightarrow> discount_curve \<Rightarrow> string + date" where
  "referenceDate lib st curve =
     advance_days lib (c_calendar curve) (evaluationDate st) (c_settlementDays curve)"

subsection \<open>fwd\_curve: the conventions of a currency (lines 28 to 60)\<close>

record convention =
  settlement_days :: nat
  calendar :: calendar
  day_count :: day_counter
  index :: overnight_index

definition OvernightIndex ::
  "string \<Rightarrow> nat \<Rightarrow> string \<Rightarrow> calendar \<Rightarrow> day_counter \<Rightarrow> overnight_index" where
  "OvernightIndex name days ccy cal dc =
     \<lparr>familyName = name, fixingDays = days, index_currency = ccy, fixingCalendar = cal,
      index_dayCounter = dc\<rparr>"

text \<open>\<open>None\<close> is the last branch: a fatal log entry and \<open>exit()\<close>.\<close>

definition currency_convention :: "string \<Rightarrow> convention option" where
  "currency_convention currency =
     (if currency = ''EUR'' then
        Some \<lparr>settlement_days = 2, calendar = TARGET, day_count = Actual360,
              index = OvernightIndex ''EUR'' 2 ''EUR'' TARGET Actual360\<rparr>
      else if currency = ''GBP'' then
        Some \<lparr>settlement_days = 0, calendar = UnitedKingdom, day_count = Actual365Fixed,
              index = OvernightIndex ''GBP'' 0 ''GBP'' UnitedKingdom Actual365Fixed\<rparr>
      else if currency = ''USD'' then
        Some \<lparr>settlement_days = 2, calendar = UnitedStates, day_count = Actual360,
              index = OvernightIndex ''USD'' 2 ''USD'' UnitedStates Actual360\<rparr>
      else if currency = ''JPY'' then
        Some \<lparr>settlement_days = 2, calendar = Japan, day_count = Actual365Fixed,
              index = OvernightIndex ''JPY'' 2 ''JPY'' Japan Actual365Fixed\<rparr>
      else if currency = ''AUD'' then
        Some \<lparr>settlement_days = 1, calendar = Australia, day_count = Actual365Fixed,
              index = OvernightIndex ''AUD'' 1 ''AUD'' Australia Actual365Fixed\<rparr>
      else if currency = ''CAD'' then
        Some \<lparr>settlement_days = 1, calendar = Canada, day_count = Actual365Fixed,
              index = OvernightIndex ''CAD'' 1 ''CAD'' Canada Actual365Fixed\<rparr>
      else None)"

subsection \<open>fwd\_curve: one rate helper per quote (lines 62 to 82)\<close>

text \<open>Lines 66 to 78. \<open>None\<close> is the last branch: a fatal log entry and \<open>exit()\<close>.\<close>

definition time_unit_of :: "string \<Rightarrow> time_unit option" where
  "time_unit_of u =
     (let unit_char = upper u in
      if unit_char = ''D'' then Some Days
      else if unit_char = ''W'' then Some Weeks
      else if unit_char = ''M'' then Some Months
      else if unit_char = ''Y'' then Some Years
      else None)"

text \<open>
  Lines 66 to 81 for the quote with index \<open>i\<close>: the tenor and the fixed rate that
  are handed to the helper's constructor. Reading \<open>units[i]\<close> or \<open>terms[i]\<close> past
  the end of the array raises IndexError; the loop runs over the indices of
  \<open>rates\<close>, so \<open>rates[i]\<close> exists.
\<close>

definition tenor_and_rate ::
  "real list \<Rightarrow> py_value list \<Rightarrow> string list \<Rightarrow> nat \<Rightarrow> stop + period \<times> real" where
  "tenor_and_rate rates terms units i =
     (if length units \<le> i then Inl (Raise IndexError)
      else
        (case time_unit_of (units ! i) of
           None \<Rightarrow> Inl Exit
         | Some time_unit \<Rightarrow>
             if length terms \<le> i then Inl (Raise IndexError)
             else
               (case py_int (terms ! i) of
                  Inl e \<Rightarrow> Inl (Raise e)
                | Inr n \<Rightarrow>
                    (case mkPeriod n time_unit of
                       Inl e \<Rightarrow> Inl (Raise e)
                     | Inr tenor \<Rightarrow> Inr (tenor, rates ! i / 100)))))"

text \<open>Line 82: the constructor may fail, outside of any \<open>try\<close>.\<close>

definition OISRateHelper ::
  "quantlib \<Rightarrow> date \<Rightarrow> nat \<Rightarrow> period \<Rightarrow> real \<Rightarrow> overnight_index \<Rightarrow> stop + ois_rate_helper" where
  "OISRateHelper lib today days tenor quote idx =
     (let h = \<lparr>h_settlementDays = days, h_tenor = tenor, h_fixedRate = quote,
                h_overnightIndex = idx\<rparr>
      in case OISRateHelper_error lib today h of
           Some msg \<Rightarrow> Inl (Raise (RuntimeError msg))
         | None \<Rightarrow> Inr h)"

text \<open>
  The loop of lines 64 to 82 over the indices \<open>is\<close> still to visit; \<open>ois_helpers\<close>
  is the list built so far.
\<close>

fun helpers_loop ::
  "quantlib \<Rightarrow> date \<Rightarrow> convention \<Rightarrow> real list \<Rightarrow> py_value list \<Rightarrow> string list \<Rightarrow>
   nat list \<Rightarrow> ois_rate_helper list \<Rightarrow> stop + ois_rate_helper list" where
  "helpers_loop lib today conv rates terms units [] ois_helpers = Inr ois_helpers"
| "helpers_loop lib today conv rates terms units (i # is) ois_helpers =
     (case tenor_and_rate rates terms units i of
        Inl s \<Rightarrow> Inl s
      | Inr (tenor, quote) \<Rightarrow>
          (case OISRateHelper lib today (settlement_days conv) tenor quote (index conv) of
             Inl s \<Rightarrow> Inl s
           | Inr h \<Rightarrow>
               helpers_loop lib today conv rates terms units is (ois_helpers @ [h])))"

subsection \<open>fwd\_curve: the curve and its forwards (lines 84 to 104)\<close>

type_synonym timestamp = nat

text \<open>
  A row of the data frame that \<open>fwd_curve\<close> returns, with the columns in the order
  of line 100. Dates stand as their serial numbers. A frame is the list of its rows;
  \<open>pd.DataFrame()\<close> is the frame without rows.
\<close>

record forward_point =
  Date :: date
  Currency :: string
  DateFwd :: date
  RateFwd :: real
  Updated :: timestamp

type_synonym frame = "forward_point list"

text \<open>Line 86.\<close>

definition PiecewiseLogCubicDiscount ::
  "quantlib \<Rightarrow> nat \<Rightarrow> calendar \<Rightarrow> ois_rate_helper list \<Rightarrow> day_counter \<Rightarrow>
   string + discount_curve" where
  "PiecewiseLogCubicDiscount lib days cal helpers dc =
     (let c = \<lparr>c_settlementDays = days, c_calendar = cal, c_instruments = helpers,
                c_dayCounter = dc\<rparr>
      in case PiecewiseLogCubicDiscount_error lib c of
           Some msg \<Rightarrow> Inl msg
         | None \<Rightarrow> Inr c)"

text \<open>The curve of line 86, when its constructor succeeds.\<close>

definition built_curve :: "convention \<Rightarrow> ois_rate_helper list \<Rightarrow> discount_curve" where
  "built_curve conv helpers =
     \<lparr>c_settlementDays = 0, c_calendar = calendar conv, c_instruments = helpers,
      c_dayCounter = day_count conv\<rparr>"

text \<open>Line 88: every day from the reference date to three years later.\<close>

definition all_days ::
  "quantlib \<Rightarrow> settings \<Rightarrow> discount_curve \<Rightarrow> calendar \<Rightarrow> string + date list" where
  "all_days lib st curve cal =
     (case referenceDate lib st curve of
        Inl msg \<Rightarrow> Inl msg
      | Inr ref \<Rightarrow>
          (case advance_years lib cal ref 3 of
             Inl msg \<Rightarrow> Inl msg
           | Inr last_day \<Rightarrow> MakeSchedule ref last_day))"

text \<open>Line 90: the forward from \<open>d\<close> to the next business day, in percent.\<close>

definition rate_fwd ::
  "quantlib \<Rightarrow> settings \<Rightarrow> discount_curve \<Rightarrow> calendar \<Rightarrow> day_counter \<Rightarrow> date \<Rightarrow>
   string + real" where
  "rate_fwd lib st curve cal dc d =
     (case advance_days lib cal d 1 of
        Inl msg \<Rightarrow> Inl msg
      | Inr d2 \<Rightarrow>
          (case forwardRate lib (evaluationDate st) curve d d2 dc of
             Inl msg \<Rightarrow> Inl msg
           | Inr r \<Rightarrow> Inr (r * 100)))"

text \<open>A list comprehension whose element may fail: the first failure ends it.\<close>

fun map_ql :: "('a \<Rightarrow> string + 'b) \<Rightarrow> 'a list \<Rightarrow> string + 'b list" where
  "map_ql f [] = Inr []"
| "map_ql f (x # xs) =
     (case f x of
        Inl msg \<Rightarrow> Inl msg
      | Inr y \<Rightarrow> (case map_ql f xs of Inl msg \<Rightarrow> Inl msg | Inr ys \<Rightarrow> Inr (y # ys)))"

text \<open>
  Lines 92 to 100: the columns \<open>DateFwd\<close> and \<open>RateFwd\<close> row by row, and the same
  \<open>Date\<close>, \<open>Currency\<close> and \<open>Updated\<close> in every row.
\<close>

definition forwards ::
  "date list \<Rightarrow> real list \<Rightarrow> date \<Rightarrow> string \<Rightarrow> timestamp \<Rightarrow> frame" where
  "forwards days rates_fwd ref_date currency now =
     map (\<lambda>(d, r). \<lparr>Date = ref_date, Currency = currency, DateFwd = d, RateFwd = r,
                     Updated = now\<rparr>)
       (zip days rates_fwd)"

text \<open>
  The body of the \<open>try\<close> (lines 86 to 100). \<open>now\<close> is what the one call of
  \<open>datetime.now()\<close> in line 98 returns.
\<close>

definition try_body ::
  "quantlib \<Rightarrow> settings \<Rightarrow> timestamp \<Rightarrow> convention \<Rightarrow> string \<Rightarrow> ois_rate_helper list \<Rightarrow>
   string + frame" where
  "try_body lib st now conv currency ois_helpers =
     (case PiecewiseLogCubicDiscount lib 0 (calendar conv) ois_helpers (day_count conv) of
        Inl msg \<Rightarrow> Inl msg
      | Inr curve \<Rightarrow>
          (case all_days lib st curve (calendar conv) of
             Inl msg \<Rightarrow> Inl msg
           | Inr days \<Rightarrow>
               (case map_ql (rate_fwd lib st curve (calendar conv) (day_count conv)) days of
                  Inl msg \<Rightarrow> Inl msg
                | Inr rates_fwd \<Rightarrow>
                    (case referenceDate lib st curve of
                       Inl msg \<Rightarrow> Inl msg
                     | Inr ref_date \<Rightarrow>
                         Inr (forwards days rates_fwd ref_date currency now)))))"

subsection \<open>fwd\_curve\<close>

text \<open>
  Line 24 writes the library's global evaluation date; \<open>from_date\<close> fails, outside
  of any \<open>try\<close>, for a year that the library does not know.
\<close>

definition set_evaluation_date :: "datetime \<Rightarrow> settings \<Rightarrow> stop + settings" where
  "set_evaluation_date eval_date st =
     (case from_date eval_date of
        Inl msg \<Rightarrow> Inl (Raise (RuntimeError msg))
      | Inr d \<Rightarrow> Inr (st\<lparr>evaluationDate := d\<rparr>))"

text \<open>
  Lines 26 to 104, which read the global evaluation date and leave it as it is.
  The handler of lines 102 to 104 turns a RuntimeError of the \<open>try\<close> body into an
  empty frame; every failure of that body is a library error, hence a RuntimeError.
\<close>

definition fwd_curve_body ::
  "quantlib \<Rightarrow> timestamp \<Rightarrow> real list \<Rightarrow> py_value list \<Rightarrow> string list \<Rightarrow> string \<Rightarrow>
   settings \<Rightarrow> stop + frame" where
  "fwd_curve_body lib now rates terms units currency st =
     (case currency_convention currency of
        None \<Rightarrow> Inl Exit
      | Some conv \<Rightarrow>
          (case helpers_loop lib (evaluationDate st) conv rates terms units
                  [0..<length rates] [] of
             Inl s \<Rightarrow> Inl s
           | Inr ois_helpers \<Rightarrow>
               (case try_body lib st now conv currency ois_helpers of
                  Inl msg \<Rightarrow> Inr []
                | Inr frame \<Rightarrow> Inr frame)))"

text \<open>The whole function: what the call does to the caller, and the state it leaves.\<close>

definition fwd_curve ::
  "quantlib \<Rightarrow> timestamp \<Rightarrow> real list \<Rightarrow> py_value list \<Rightarrow> string list \<Rightarrow> datetime \<Rightarrow>
   string \<Rightarrow> settings \<Rightarrow> (stop + frame) \<times> settings" where
  "fwd_curve lib now rates terms units eval_date currency st =
     (case set_evaluation_date eval_date st of
        Inl s \<Rightarrow> (Inl s, st)
      | Inr st1 \<Rightarrow> (fwd_curve_body lib now rates terms units currency st1, st1))"

subsection \<open>The loop over the currencies (lines 162 to 182)\<close>

text \<open>
  What the loop reads for one currency: the rows of \<open>df\<close> for it (the columns
  \<open>Value\<close>, \<open>Term\<close> and \<open>Unit\<close>; a missing value is \<open>None\<close>), its row of the update
  times, if there is one, and \<open>clock\<close>, the time that \<open>datetime.now()\<close> gives when the
  call of \<open>fwd_curve\<close> for this currency reaches line 98.
\<close>

record currency_data =
  ccy :: string
  update_window :: "(int \<times> int) option"
  c_df_Value :: "real option list"
  c_df_Term :: "py_value list"
  c_df_Unit :: "string list"
  clock :: timestamp

text \<open>Line 175 and \<open>na_count.values[0]\<close>: the number of missing values.\<close>

definition na_count :: "real option list \<Rightarrow> nat" where
  "na_count vs = length (filter (\<lambda>v. v = None) vs)"

text \<open>
  The loop, over the currencies still to visit. Reading the first element of an
  empty array raises IndexError (lines 167, 168 and 177). A call of \<open>fwd_curve\<close>
  that does not return ends the loop, and with it the script.
\<close>

fun currency_loop ::
  "quantlib \<Rightarrow> int \<Rightarrow> datetime \<Rightarrow> currency_data list \<Rightarrow> frame list \<Rightarrow> settings \<Rightarrow>
   (stop + frame list) \<times> settings" where
  "currency_loop lib current_hour target_date [] frames st = (Inr frames, st)"
| "currency_loop lib current_hour target_date (c # cs) frames st =
     (case update_window c of
        None \<Rightarrow> (Inl (Raise IndexError), st)
      | Some (first_update, last_update) \<Rightarrow>
          if first_update \<le> current_hour \<and> current_hour < last_update then
            (if c_df_Value c = [] then (Inl (Raise IndexError), st)
             else if 0 < na_count (c_df_Value c) then
               currency_loop lib current_hour target_date cs frames st
             else
               (case fwd_curve lib (clock c) (map the (c_df_Value c)) (c_df_Term c)
                       (c_df_Unit c) target_date (ccy c) st of
                  (Inl s, st1) \<Rightarrow> (Inl s, st1)
                | (Inr fwds, st1) \<Rightarrow>
                    currency_loop lib current_hour target_date cs (frames @ [fwds]) st1))
          else currency_loop lib current_hour target_date cs frames st)"

declare currency_loop.simps [simp del]

subsection \<open>Two calls of fwd\_curve, one after the other or interleaved\<close>

text \<open>The arguments of one call, and the clock reading of its line 98.\<close>

record fwd_curve_call =
  a_now :: timestamp
  a_rates :: "real list"
  a_terms :: "py_value list"
  a_units :: "string list"
  a_eval_date :: datetime
  a_currency :: string

definition call_fwd_curve ::
  "quantlib \<Rightarrow> fwd_curve_call \<Rightarrow> settings \<Rightarrow> (stop + frame) \<times> settings" where
  "call_fwd_curve lib a st =
     fwd_curve lib (a_now a) (a_rates a) (a_terms a) (a_units a) (a_eval_date a)
       (a_currency a) st"

text \<open>The call \<open>a\<close> runs to its end, then the call \<open>b\<close>.\<close>

definition one_after_the_other ::
  "quantlib \<Rightarrow> fwd_curve_call \<Rightarrow> fwd_curve_call \<Rightarrow> settings \<Rightarrow>
   (stop + frame) \<times> (stop + frame)" where
  "one_after_the_other lib a b st =
     (case call_fwd_curve lib a st of
        (ra, st1) \<Rightarrow> (ra, fst (call_fwd_curve lib b st1)))"

text \<open>
  One interleaving of two threads: line 24 of \<open>a\<close>, line 24 of \<open>b\<close>, the rest of \<open>a\<close>,
  the rest of \<open>b\<close>. (A call whose line 24 fails is over.)
\<close>

definition interleaved ::
  "quantlib \<Rightarrow> fwd_curve_call \<Rightarrow> fwd_curve_call \<Rightarrow> settings \<Rightarrow>
   (stop + frame) \<times> (stop + frame)" where
  "interleaved lib a b st =
     (case set_evaluation_date (a_eval_date a) st of
        Inl s \<Rightarrow> (Inl s, fst (call_fwd_curve lib b st))
      | Inr st1 \<Rightarrow>
          (case set_evaluation_date (a_eval_date b) st1 of
             Inl s \<Rightarrow>
               (fwd_curve_body lib (a_now a) (a_rates a) (a_terms a) (a_units a)
                  (a_currency a) st1,
                Inl s)
           | Inr st2 \<Rightarrow>
               (fwd_curve_body lib (a_now a) (a_rates a) (a_terms a) (a_units a)
                  (a_currency a) st2,
                fwd_curve_body lib (a_now b) (a_rates b) (a_terms b) (a_units b)
                  (a_currency b) st2)))"

subsection \<open>An instance of the library, for examples\<close>

text \<open>
  A library without holidays on weekdays, whose constructors succeed but for a
  curve without helpers, and whose curves all are flat at 3 percent, continuously
  compounded in the curve's own day count, with no end.
\<close>

definition flat_library :: quantlib where
  "flat_library =
     \<lparr>holidays = (\<lambda>cal d. False),
      OISRateHelper_error = (\<lambda>today h. None),
      PiecewiseLogCubicDiscount_error =
        (\<lambda>c. if c_instruments c = [] then Some ''no bootstrap helpers given'' else None),
      discount = (\<lambda>today c d. Inr (exp (- (3 / 100) * yearFraction (c_dayCounter c) today d)))\<rparr>"

text \<open>The state of the library before any evaluation date is set: the null date.\<close>

definition no_evaluation_date :: settings where
  "no_evaluation_date = \<lparr>evaluationDate = 0\<rparr>"

text \<open>Monday, 6 January 2025, and the day after.\<close>

definition monday :: datetime where
  "monday = \<lparr>dt_year = 2025, dt_month = 1, dt_day = 6\<rparr>"

definition tuesday :: datetime where
  "tuesday = \<lparr>dt_year = 2025, dt_month = 1, dt_day = 7\<rparr>"

text \<open>Three EUR quotes: 1 month at 3.50, 3 months at 3.55, 5 years at 3.40.\<close>

definition eur_call :: fwd_curve_call where
  "eur_call =
     \<lparr>a_now = 1000, a_rates = [350 / 100, 355 / 100, 340 / 100],
      a_terms = [PyInt 1, PyInt 3, PyInt 5], a_units = [''M'', ''M'', ''Y''],
      a_eval_date = monday, a_currency = ''EUR''\<rparr>"

definition gbp_call :: fwd_curve_call where
  "gbp_call =
     \<lparr>a_now = 2000, a_rates = [4], a_terms = [PyInt 5], a_units = [''y''],
      a_eval_date = tuesday, a_currency = ''GBP''\<rparr>"

text \<open>
  The frame that a call on that Monday, or on the Tuesday, gets from this library:
  one row per day up to the same day three years later, every forward at 3 percent.
\<close>

definition monday_frame :: "string \<Rightarrow> timestamp \<Rightarrow> frame" where
  "monday_frame currency now =
     forwards [45663..46758] (map (\<lambda>d. 3) [45663..46758]) 45663 currency now"

definition tuesday_frame :: "string \<Rightarrow> timestamp \<Rightarrow> frame" where
  "tuesday_frame currency now =
     forwards [45664..46759] (map (\<lambda>d. 3) [45664..46759]) 45664 currency now"

text \<open>The same quotes as the loop over the currencies reads them.\<close>

definition eur_data :: currency_data where
  "eur_data =
     \<lparr>ccy = ''EUR'', update_window = Some (7, 18),
      c_df_Value = [Some (350 / 100), Some (355 / 100), Some (340 / 100)],
      c_df_Term = [PyInt 1, PyInt 3, PyInt 5], c_df_Unit = [''M'', ''M'', ''Y''],
      clock = 1000\<rparr>"

definition gbp_data :: currency_data where
  "gbp_data =
     \<lparr>ccy = ''GBP'', update_window = Some (7, 18), c_df_Value = [Some 4],
      c_df_Term = [PyInt 5], c_df_Unit = [''y''], clock = 2000\<rparr>"

text \<open>The same library, but for a bootstrap that fails at the first request.\<close>

definition failing_library :: quantlib where
  "failing_library =
     flat_library\<lparr>discount := (\<lambda>today c d. Inl ''1st iteration: failed at 1st alive instrument'')\<rparr>"

text \<open>
  The EUR quotes with a unit that is no unit, with a currency that has no
  conventions, and with a missing value.
\<close>

definition eur_data_X :: currency_data where
  "eur_data_X = eur_data\<lparr>c_df_Unit := [''M'', ''X'', ''Y'']\<rparr>"

definition chf_data :: currency_data where
  "chf_data = eur_data\<lparr>ccy := ''CHF''\<rparr>"

definition eur_data_na :: currency_data where
  "eur_data_na = eur_data\<lparr>c_df_Value := [Some (350 / 100), None, Some (340 / 100)]\<rparr>"

section \<open>Properties of the model\<close>

subsection \<open>Units, calendars and lists\<close>

lemma upper_char_cases:
  "upper_char c = CHR ''D'' \<longleftrightarrow> c = CHR ''D'' \<or> c = CHR ''d''"
  "upper_char c = CHR ''W'' \<longleftrightarrow> c = CHR ''W'' \<or> c = CHR ''w''"
  "upper_char c = CHR ''M'' \<longleftrightarrow> c = CHR ''M'' \<or> c = CHR ''m''"
  "upper_char c = CHR ''Y'' \<longleftrightarrow> c = CHR ''Y'' \<or> c = CHR ''y''"
  by (auto simp add: upper_char_def split: if_splits)

lemma upper_single:
  "upper u = [k] \<longleftrightarrow> (\<exists>c. u = [c] \<and> upper_char c = k)"
  by (cases u) (auto simp add: upper_def)

lemma time_unit_of_eq:
  "time_unit_of u =
     (if u = ''D'' \<or> u = ''d'' then Some Days
      else if u = ''W'' \<or> u = ''w'' then Some Weeks
      else if u = ''M'' \<or> u = ''m'' then Some Months
      else if u = ''Y'' \<or> u = ''y'' then Some Years
      else None)"
  unfolding time_unit_of_def Let_def upper_single upper_char_cases
  by auto

lemma adjust_Inr:
  "adjust hol d = Inr d' \<Longrightarrow> d \<le> d' \<and> \<not> hol d' \<and> (\<forall>k. d \<le> k \<and> k < d' \<longrightarrow> hol k)"
proof (induction hol d rule: adjust.induct)
  case (1 hol d)
  show ?case
  proof (cases "hol d")
    case False
    with "1.prems" show ?thesis by (auto simp add: adjust.simps [of hol d])
  next
    case True
    with "1.prems" have le: "d + 1 \<le> maximumSerialNumber" and rec: "adjust hol (d + 1) = Inr d'"
      by (auto simp add: adjust.simps [of hol d] split: if_splits)
    from "1.IH" [OF True le rec]
    have IH: "d + 1 \<le> d'" "\<not> hol d'" "\<And>k. d + 1 \<le> k \<Longrightarrow> k < d' \<Longrightarrow> hol k"
      by auto
    have "hol k" if "d \<le> k" "k < d'" for k
    proof (cases "k = d")
      case True
      with \<open>hol d\<close> show ?thesis by simp
    next
      case False
      with that have "d + 1 \<le> k" by simp
      then show ?thesis using that IH(3) by simp
    qed
    with IH show ?thesis by auto
  qed
qed

lemma map_ql_Inr:
  "map_ql f xs = Inr ys \<Longrightarrow> length ys = length xs \<and> (\<forall>i < length xs. f (xs ! i) = Inr (ys ! i))"
proof (induction xs arbitrary: ys)
  case Nil
  then show ?case by simp
next
  case (Cons x xs)
  then obtain y ys' where y: "f x = Inr y" and ys': "map_ql f xs = Inr ys'" and ys: "ys = y # ys'"
    by (auto split: sum.splits)
  from Cons.IH [OF ys'] y ys show ?case
    by (auto simp add: nth_Cons split: nat.splits)
qed

lemma map_ql_map:
  "(\<And>x. x \<in> set xs \<Longrightarrow> f x = Inr (g x)) \<Longrightarrow> map_ql f xs = Inr (map g xs)"
  by (induction xs) auto

lemma adjust_business_day: "\<not> hol d \<Longrightarrow> adjust hol d = Inr d"
  by (simp add: adjust.simps [of hol d])

lemma adjust_holiday:
  "hol d \<Longrightarrow> d + 1 \<le> maximumSerialNumber \<Longrightarrow> adjust hol d = adjust hol (d + 1)"
  by (simp add: adjust.simps [of hol d])

lemma next_business_day_later: "next_business_day hol d = Inr d' \<Longrightarrow> d < d'"
  by (auto simp add: next_business_day_def split: if_splits dest: adjust_Inr)

lemma business_days_forward_later:
  "business_days_forward hol n d = Inr d' \<Longrightarrow> 0 < n \<Longrightarrow> d < d'"
proof (induction n arbitrary: d)
  case 0
  then show ?case by simp
next
  case (Suc n)
  from Suc.prems obtain d1 where d1: "next_business_day hol d = Inr d1"
    and rest: "business_days_forward hol n d1 = Inr d'"
    by (auto split: sum.splits)
  from d1 have "d < d1" by (rule next_business_day_later)
  show ?case
  proof (cases n)
    case 0
    with rest \<open>d < d1\<close> show ?thesis by simp
  next
    case (Suc m)
    with Suc.IH [OF rest] \<open>d < d1\<close> show ?thesis by simp
  qed
qed

lemma advance_days_later: "advance_days lib cal d n = Inr d' \<Longrightarrow> 0 < n \<Longrightarrow> d < d'"
  by (auto simp add: advance_days_def dest: business_days_forward_later)

lemma weekend_next_business_day:
  assumes "d + 3 \<le> maximumSerialNumber"
  shows "next_business_day isWeekend d =
           Inr (if (d + 1) mod 7 = 0 then d + 3 else if (d + 1) mod 7 = 1 then d + 2 else d + 1)"
proof -
  have start: "next_business_day isWeekend d = adjust isWeekend (d + 1)"
    using assms by (simp add: next_business_day_def)
  consider (sat) "(d + 1) mod 7 = 0" | (sun) "(d + 1) mod 7 = 1" | (week) "\<not> isWeekend (d + 1)"
    by (auto simp add: isWeekend_def)
  then show ?thesis
  proof cases
    case sat
    then have w: "isWeekend (d + 1)" "isWeekend (d + 1 + 1)" "\<not> isWeekend (d + 1 + 1 + 1)"
      unfolding isWeekend_def by presburger+
    have "adjust isWeekend (d + 1) = adjust isWeekend (d + 1 + 1)"
      using w(1) assms by (intro adjust_holiday) auto
    also have "\<dots> = adjust isWeekend (d + 1 + 1 + 1)"
      using w(2) assms by (intro adjust_holiday) auto
    also have "\<dots> = Inr (d + 1 + 1 + 1)"
      using w(3) by (rule adjust_business_day)
    finally show ?thesis using sat start by simp
  next
    case sun
    then have w: "isWeekend (d + 1)" "\<not> isWeekend (d + 1 + 1)"
      unfolding isWeekend_def by presburger+
    have "adjust isWeekend (d + 1) = adjust isWeekend (d + 1 + 1)"
      using w(1) assms by (intro adjust_holiday) auto
    also have "\<dots> = Inr (d + 1 + 1)"
      using w(2) by (rule adjust_business_day)
    finally show ?thesis using sun start by simp
  next
    case week
    then have "(d + 1) mod 7 \<noteq> 0" "(d + 1) mod 7 \<noteq> 1" by (auto simp add: isWeekend_def)
    with week start show ?thesis
      by (simp add: adjust_business_day)
  qed
qed

subsection \<open>The rows of a returned frame\<close>

lemma PiecewiseLogCubicDiscount_Inr:
  "PiecewiseLogCubicDiscount lib 0 (calendar conv) hs (day_count conv) = Inr curve \<Longrightarrow>
   curve = built_curve conv hs \<and> PiecewiseLogCubicDiscount_error lib (built_curve conv hs) = None"
  by (auto simp add: PiecewiseLogCubicDiscount_def built_curve_def Let_def split: option.splits)

lemma referenceDate_built_curve:
  "referenceDate lib st (built_curve conv hs) =
     adjust (isHoliday lib (calendar conv)) (evaluationDate st)"
  by (simp add: referenceDate_def built_curve_def advance_days_def)

lemma try_body_Inr:
  assumes "try_body lib st now conv currency hs = Inr frame"
  shows "\<exists>ref last_day rates_fwd.
           PiecewiseLogCubicDiscount_error lib (built_curve conv hs) = None \<and>
           adjust (isHoliday lib (calendar conv)) (evaluationDate st) = Inr ref \<and>
           advance_years lib (calendar conv) ref 3 = Inr last_day \<and>
           ref < last_day \<and>
           map_ql (rate_fwd lib st (built_curve conv hs) (calendar conv) (day_count conv))
             [ref..last_day] = Inr rates_fwd \<and>
           frame = forwards [ref..last_day] rates_fwd ref currency now"
proof -
  from assms obtain curve days rates_fwd ref_date where
    c: "PiecewiseLogCubicDiscount lib 0 (calendar conv) hs (day_count conv) = Inr curve"
    and d: "all_days lib st curve (calendar conv) = Inr days"
    and r: "map_ql (rate_fwd lib st curve (calendar conv) (day_count conv)) days = Inr rates_fwd"
    and rd: "referenceDate lib st curve = Inr ref_date"
    and f: "frame = forwards days rates_fwd ref_date currency now"
    by (auto simp add: try_body_def split: sum.splits)
  from c have curve: "curve = built_curve conv hs"
    and ok: "PiecewiseLogCubicDiscount_error lib (built_curve conv hs) = None"
    using PiecewiseLogCubicDiscount_Inr by blast+
  from rd curve have ref: "adjust (isHoliday lib (calendar conv)) (evaluationDate st) = Inr ref_date"
    by (simp add: referenceDate_built_curve)
  from d rd obtain last_day where
    l: "advance_years lib (calendar conv) ref_date 3 = Inr last_day"
    and s: "MakeSchedule ref_date last_day = Inr days"
    by (auto simp add: all_days_def split: sum.splits)
  from s have lt: "ref_date < last_day" and days: "days = [ref_date..last_day]"
    by (auto simp add: MakeSchedule_def split: if_splits)
  from ok ref l lt r f curve days show ?thesis by blast
qed

lemma forwards_columns:
  assumes "length rates_fwd = length days"
  shows "map DateFwd (forwards days rates_fwd ref currency now) = days"
    and "map RateFwd (forwards days rates_fwd ref currency now) = rates_fwd"
    and "length (forwards days rates_fwd ref currency now) = length days"
  using assms by (simp_all add: forwards_def map_fst_zip map_snd_zip case_prod_unfold comp_def)

lemma forwards_constant_columns:
  "row \<in> set (forwards days rates_fwd ref currency now) \<Longrightarrow>
   Date row = ref \<and> Currency row = currency \<and> Updated row = now"
  by (auto simp add: forwards_def)

lemma forwards_other_time:
  "forwards days rates_fwd ref currency now' =
     map (\<lambda>row. row\<lparr>Updated := now'\<rparr>) (forwards days rates_fwd ref currency now)"
  by (simp add: forwards_def case_prod_unfold comp_def)

lemma fwd_curve_body_Inr:
  assumes "fwd_curve_body lib now rates terms units currency st = Inr frame"
  shows "\<exists>conv hs.
           currency_convention currency = Some conv \<and>
           helpers_loop lib (evaluationDate st) conv rates terms units [0..<length rates] [] = Inr hs \<and>
           (case try_body lib st now conv currency hs of Inl msg \<Rightarrow> frame = [] | Inr f \<Rightarrow> frame = f)"
  using assms by (auto simp add: fwd_curve_body_def split: option.splits sum.splits)

lemma fwd_curve_Inr:
  assumes "fwd_curve lib now rates terms units eval_date currency st = (Inr frame, st1)"
  shows "\<exists>today. from_date eval_date = Inr today \<and> st1 = st\<lparr>evaluationDate := today\<rparr> \<and>
           fwd_curve_body lib now rates terms units currency st1 = Inr frame"
  using assms by (auto simp add: fwd_curve_def set_evaluation_date_def split: sum.splits)

lemma upto_strictly_ascending: "sorted_wrt (<) [i..j]"
  by (simp add: sorted_wrt_iff_nth_less)

lemma fwd_curve_body_rows:
  assumes ret: "fwd_curve_body lib now rates terms units currency st = Inr frame"
    and ne: "frame \<noteq> []"
  shows "\<exists>conv hs ref last_day rates_fwd.
           currency_convention currency = Some conv \<and>
           helpers_loop lib (evaluationDate st) conv rates terms units [0..<length rates] [] = Inr hs \<and>
           adjust (isHoliday lib (calendar conv)) (evaluationDate st) = Inr ref \<and>
           advance_years lib (calendar conv) ref 3 = Inr last_day \<and>
           ref < last_day \<and>
           map_ql (rate_fwd lib st (built_curve conv hs) (calendar conv) (day_count conv))
             [ref..last_day] = Inr rates_fwd \<and>
           frame = forwards [ref..last_day] rates_fwd ref currency now"
proof -
  from fwd_curve_body_Inr [OF ret] obtain conv hs where
    conv: "currency_convention currency = Some conv"
    and hs: "helpers_loop lib (evaluationDate st) conv rates terms units [0..<length rates] [] = Inr hs"
    and tb: "case try_body lib st now conv currency hs of Inl msg \<Rightarrow> frame = [] | Inr f \<Rightarrow> frame = f"
    by blast
  from tb ne have "try_body lib st now conv currency hs = Inr frame"
    by (auto split: sum.splits)
  from try_body_Inr [OF this] conv hs show ?thesis by blast
qed

lemma impliedRate_Inr:
  assumes "impliedRate compound t = Inr r"
  shows "0 < compound \<and> r = ln compound / t"
  using assms by (auto simp add: impliedRate_def split: if_splits)

subsection \<open>The ways fwd\_curve and the loop can end\<close>

lemma helpers_loop_append:
  "helpers_loop lib today conv rates terms units (xs @ ys) acc =
     (case helpers_loop lib today conv rates terms units xs acc of
        Inl s \<Rightarrow> Inl s
      | Inr acc' \<Rightarrow> helpers_loop lib today conv rates terms units ys acc')"
  by (induction xs arbitrary: acc) (auto split: sum.splits)

lemma helpers_loop_stops:
  assumes i: "i < length rates"
    and before: "helpers_loop lib today conv rates terms units [0..<i] [] = Inr hs"
    and stop: "tenor_and_rate rates terms units i = Inl s"
  shows "helpers_loop lib today conv rates terms units [0..<length rates] [] = Inl s"
proof -
  from i have "[0..<i + (length rates - i)] = [0..<i] @ [i..<i + (length rates - i)]"
    by (intro upt_add_eq_append) simp
  with i have "[0..<length rates] = [0..<i] @ i # [Suc i..<length rates]"
    by (simp add: upt_conv_Cons)
  then show ?thesis
    using before stop by (simp add: helpers_loop_append)
qed

lemma fwd_curve_stops:
  assumes "from_date eval_date = Inr today"
    and "currency_convention currency = Some conv"
    and "i < length rates"
    and "helpers_loop lib today conv rates terms units [0..<i] [] = Inr hs"
    and "tenor_and_rate rates terms units i = Inl s"
  shows "fwd_curve lib now rates terms units eval_date currency st =
           (Inl s, st\<lparr>evaluationDate := today\<rparr>)"
  using assms(1,2) helpers_loop_stops [OF assms(3,4,5)]
  by (simp add: fwd_curve_def set_evaluation_date_def fwd_curve_body_def)

lemma fwd_curve_unsupported:
  assumes "from_date eval_date = Inr today" and "currency_convention currency = None"
  shows "fwd_curve lib now rates terms units eval_date currency st =
           (Inl Exit, st\<lparr>evaluationDate := today\<rparr>)"
  using assms by (simp add: fwd_curve_def set_evaluation_date_def fwd_curve_body_def)

lemma fwd_curve_absorbs:
  assumes "from_date eval_date = Inr today"
    and "currency_convention currency = Some conv"
    and "helpers_loop lib today conv rates terms units [0..<length rates] [] = Inr hs"
    and "try_body lib (st\<lparr>evaluationDate := today\<rparr>) now conv currency hs = Inl msg"
  shows "fwd_curve lib now rates terms units eval_date currency st =
           (Inr [], st\<lparr>evaluationDate := today\<rparr>)"
  using assms by (simp add: fwd_curve_def set_evaluation_date_def fwd_curve_body_def)

lemma currency_loop_call:
  assumes "update_window c = Some (first_update, last_update)"
    and "first_update \<le> current_hour" and "current_hour < last_update"
    and "c_df_Value c \<noteq> []" and "na_count (c_df_Value c) = 0"
  shows "currency_loop lib current_hour target_date (c # cs) frames st =
           (case fwd_curve lib (clock c) (map the (c_df_Value c)) (c_df_Term c) (c_df_Unit c)
                   target_date (ccy c) st of
              (Inl s, st1) \<Rightarrow> (Inl s, st1)
            | (Inr fwds, st1) \<Rightarrow>
                currency_loop lib current_hour target_date cs (frames @ [fwds]) st1)"
  using assms by (simp add: currency_loop.simps)

lemma currency_loop_skip:
  assumes "update_window c = Some (first_update, last_update)"
    and "first_update \<le> current_hour" and "current_hour < last_update"
    and "c_df_Value c \<noteq> []" and "0 < na_count (c_df_Value c)"
  shows "currency_loop lib current_hour target_date (c # cs) frames st =
           currency_loop lib current_hour target_date cs frames st"
  using assms by (simp add: currency_loop.simps)

lemma currency_loop_stop:
  assumes "update_window c = Some (first_update, last_update)"
    and "first_update \<le> current_hour" and "current_hour < last_update"
    and "c_df_Value c \<noteq> []" and "na_count (c_df_Value c) = 0"
    and "fwd_curve lib (clock c) (map the (c_df_Value c)) (c_df_Term c) (c_df_Unit c)
           target_date (ccy c) st = (Inl s, st1)"
  shows "currency_loop lib current_hour target_date (c # cs) frames st = (Inl s, st1)"
  using currency_loop_call [OF assms(1-5), of lib target_date cs frames st] assms(6) by simp

lemma currency_loop_next:
  assumes "update_window c = Some (first_update, last_update)"
    and "first_update \<le> current_hour" and "current_hour < last_update"
    and "c_df_Value c \<noteq> []" and "na_count (c_df_Value c) = 0"
    and "fwd_curve lib (clock c) (map the (c_df_Value c)) (c_df_Term c) (c_df_Unit c)
           target_date (ccy c) st = (Inr fwds, st1)"
  shows "currency_loop lib current_hour target_date (c # cs) frames st =
           currency_loop lib current_hour target_date cs (frames @ [fwds]) st1"
  using currency_loop_call [OF assms(1-5), of lib target_date cs frames st] assms(6) by simp

lemma fwd_curve_state_independent:
  "fst (fwd_curve lib now rates terms units eval_date currency st) =
   fst (fwd_curve lib now rates terms units eval_date currency st')"
  by (cases st, cases st') (simp add: fwd_curve_def set_evaluation_date_def split: sum.splits)

subsection \<open>The example library\<close>

lemma flat_isHoliday: "isHoliday flat_library cal = isWeekend"
  by (rule ext) (simp add: isHoliday_def flat_library_def)

lemma flat_discount:
  "discount flat_library today c d =
     Inr (exp (- (3 / 100) * yearFraction (c_dayCounter c) today d))"
  by (simp add: flat_library_def)

lemma yearFraction_split:
  "yearFraction dc a c - yearFraction dc a b = yearFraction dc b c"
  by (cases dc) (simp_all add: diff_divide_distrib [symmetric])

lemma yearFraction_positive: "d1 < d2 \<Longrightarrow> 0 < yearFraction dc d1 d2"
  by (cases dc) simp_all

lemma flat_forwardRate:
  assumes "d1 < d2"
  shows "forwardRate flat_library today c d1 d2 (c_dayCounter c) = Inr (3 / 100)"
proof -
  let ?t = "yearFraction (c_dayCounter c) d1 d2"
  let ?a = "- (3 / 100) * yearFraction (c_dayCounter c) today d1"
  let ?b = "- (3 / 100) * yearFraction (c_dayCounter c) today d2"
  have t: "0 < ?t" using assms by (rule yearFraction_positive)
  have "?a - ?b = (3 / 100) * (yearFraction (c_dayCounter c) today d2 - yearFraction (c_dayCounter c) today d1)"
    by (simp add: algebra_simps)
  then have diff: "?a - ?b = (3 / 100) * ?t" by (simp add: yearFraction_split)
  have compound: "exp ?a / exp ?b = exp ((3 / 100) * ?t)"
    using diff by (simp add: exp_diff [symmetric])
  have ne: "exp ((3 / 100) * ?t) \<noteq> 1" using t by simp
  have "impliedRate (exp ?a / exp ?b) ?t = Inr (3 / 100)"
    unfolding compound using t ne by (simp add: impliedRate_def)
  with assms show ?thesis
    by (simp add: forwardRate_def flat_discount)
qed

lemma flat_rate_fwd:
  assumes "d + 3 \<le> maximumSerialNumber"
  shows "rate_fwd flat_library st (built_curve conv hs) (calendar conv) (day_count conv) d = Inr 3"
proof -
  obtain d2 where d2: "next_business_day isWeekend d = Inr d2"
    using weekend_next_business_day [OF assms] by blast
  then have "d < d2" by (rule next_business_day_later)
  from flat_forwardRate [OF this, of "evaluationDate st" "built_curve conv hs"]
  have "forwardRate flat_library (evaluationDate st) (built_curve conv hs) d d2 (day_count conv) = Inr (3 / 100)"
    by (simp add: built_curve_def)
  with d2 show ?thesis
    by (simp add: rate_fwd_def advance_days_def flat_isHoliday)
qed

lemma flat_try_body:
  assumes hs: "hs \<noteq> []"
    and ref: "adjust isWeekend (evaluationDate st) = Inr ref"
    and last: "advance_years flat_library (calendar conv) ref 3 = Inr last_day"
    and lt: "ref < last_day"
    and bound: "last_day + 3 \<le> maximumSerialNumber"
  shows "try_body flat_library st now conv currency hs =
           Inr (forwards [ref..last_day] (map (\<lambda>d. 3) [ref..last_day]) ref currency now)"
proof -
  have c: "PiecewiseLogCubicDiscount flat_library 0 (calendar conv) hs (day_count conv) =
             Inr (built_curve conv hs)"
    using hs by (simp add: PiecewiseLogCubicDiscount_def built_curve_def flat_library_def)
  have r: "referenceDate flat_library st (built_curve conv hs) = Inr ref"
    using ref by (simp add: referenceDate_built_curve flat_isHoliday)
  have d: "all_days flat_library st (built_curve conv hs) (calendar conv) = Inr [ref..last_day]"
    using r last lt by (simp add: all_days_def MakeSchedule_def)
  have "rate_fwd flat_library st (built_curve conv hs) (calendar conv) (day_count conv) x = Inr 3"
    if "x \<in> set [ref..last_day]" for x
    using that bound by (intro flat_rate_fwd) simp
  then have m: "map_ql (rate_fwd flat_library st (built_curve conv hs) (calendar conv) (day_count conv))
                  [ref..last_day] = Inr (map (\<lambda>d. 3) [ref..last_day])"
    by (rule map_ql_map)
  from c d m r show ?thesis by (simp add: try_body_def)
qed

lemma from_date_monday: "from_date monday = Inr 45663"
  by code_simp

lemma from_date_tuesday: "from_date tuesday = Inr 45664"
  by code_simp

lemma ymd_monday: "ymd_of_serial 45663 = (2025, 1, 6)"
  by code_simp

lemma ymd_tuesday: "ymd_of_serial 45664 = (2025, 1, 7)"
  by code_simp

lemma mkDate_2028_1_6: "mkDate 6 1 2028 = Inr 46758"
  by code_simp

lemma mkDate_2028_1_7: "mkDate 7 1 2028 = Inr 46759"
  by code_simp

lemma three_years_from_monday: "advance_years flat_library cal 45663 3 = Inr 46758"
  by (simp add: advance_years_def ymd_monday mkDate_2028_1_6 isLeap_def flat_isHoliday
      isWeekend_def adjust_business_day)

lemma three_years_from_tuesday: "advance_years flat_library cal 45664 3 = Inr 46759"
  by (simp add: advance_years_def ymd_tuesday mkDate_2028_1_7 isLeap_def flat_isHoliday
      isWeekend_def adjust_business_day)

lemma monday_business_day: "adjust isWeekend 45663 = Inr 45663"
  by (simp add: isWeekend_def adjust_business_day)

lemma tuesday_business_day: "adjust isWeekend 45664 = Inr 45664"
  by (simp add: isWeekend_def adjust_business_day)

lemma flat_fwd_curve_body:
  assumes conv: "currency_convention currency = Some conv"
    and hs: "helpers_loop flat_library (evaluationDate st) conv rates terms units
               [0..<length rates] [] = Inr hs"
    and ne: "hs \<noteq> []"
    and ref: "adjust isWeekend (evaluationDate st) = Inr ref"
    and last: "advance_years flat_library (calendar conv) ref 3 = Inr last_day"
    and lt: "ref < last_day"
    and bound: "last_day + 3 \<le> maximumSerialNumber"
  shows "fwd_curve_body flat_library now rates terms units currency st =
           Inr (forwards [ref..last_day] (map (\<lambda>d. 3) [ref..last_day]) ref currency now)"
  using conv hs flat_try_body [OF ne ref last lt bound, of now currency]
  by (simp add: fwd_curve_body_def)

lemma upt_3: "[0..<3] = [0, 1, 2]"
  by code_simp

lemma eur_convention:
  "currency_convention ''EUR'' =
     Some \<lparr>settlement_days = 2, calendar = TARGET, day_count = Actual360,
           index = OvernightIndex ''EUR'' 2 ''EUR'' TARGET Actual360\<rparr>"
  by (simp add: currency_convention_def)

lemma gbp_convention:
  "currency_convention ''GBP'' =
     Some \<lparr>settlement_days = 0, calendar = UnitedKingdom, day_count = Actual365Fixed,
           index = OvernightIndex ''GBP'' 0 ''GBP'' UnitedKingdom Actual365Fixed\<rparr>"
  by (simp add: currency_convention_def)

lemma time_unit_examples:
  "time_unit_of ''M'' = Some Months" "time_unit_of ''Y'' = Some Years"
  "time_unit_of ''y'' = Some Years" "time_unit_of ''X'' = None"
  by (simp_all add: time_unit_of_eq)

lemma eur_helpers:
  "\<exists>hs. helpers_loop flat_library today conv (a_rates eur_call) (a_terms eur_call)
           (a_units eur_call) [0..<length (a_rates eur_call)] [] = Inr hs \<and> hs \<noteq> []"
  by (simp add: eur_call_def upt_3 tenor_and_rate_def time_unit_examples mkPeriod_def
      OISRateHelper_def flat_library_def)

lemma gbp_helpers:
  "\<exists>hs. helpers_loop flat_library today conv (a_rates gbp_call) (a_terms gbp_call)
           (a_units gbp_call) [0..<length (a_rates gbp_call)] [] = Inr hs \<and> hs \<noteq> []"
  by (simp add: gbp_call_def tenor_and_rate_def time_unit_examples mkPeriod_def
      OISRateHelper_def flat_library_def)

lemma eur_body_monday:
  "fwd_curve_body flat_library (a_now eur_call) (a_rates eur_call) (a_terms eur_call)
     (a_units eur_call) ''EUR'' \<lparr>evaluationDate = 45663\<rparr> = Inr (monday_frame ''EUR'' 1000)"
proof -
  obtain hs where "helpers_loop flat_library 45663
      \<lparr>settlement_days = 2, calendar = TARGET, day_count = Actual360,
           index = OvernightIndex ''EUR'' 2 ''EUR'' TARGET Actual360\<rparr> (a_rates eur_call) (a_terms eur_call)
           (a_units eur_call) [0..<length (a_rates eur_call)] [] = Inr hs" "hs \<noteq> []"
    using eur_helpers by blast
  then show ?thesis
    unfolding monday_frame_def
    using flat_fwd_curve_body [OF eur_convention, of "\<lparr>evaluationDate = 45663\<rparr>" _ _ _ hs 45663 46758 "a_now eur_call"]
    by (simp add: monday_business_day three_years_from_monday maximumSerialNumber_def eur_call_def)
qed

lemma eur_body_tuesday:
  "fwd_curve_body flat_library (a_now eur_call) (a_rates eur_call) (a_terms eur_call)
     (a_units eur_call) ''EUR'' \<lparr>evaluationDate = 45664\<rparr> = Inr (tuesday_frame ''EUR'' 1000)"
proof -
  obtain hs where "helpers_loop flat_library 45664
      \<lparr>settlement_days = 2, calendar = TARGET, day_count = Actual360,
           index = OvernightIndex ''EUR'' 2 ''EUR'' TARGET Actual360\<rparr> (a_rates eur_call) (a_terms eur_call)
           (a_units eur_call) [0..<length (a_rates eur_call)] [] = Inr hs" "hs \<noteq> []"
    using eur_helpers by blast
  then show ?thesis
    unfolding tuesday_frame_def
    using flat_fwd_curve_body [OF eur_convention, of "\<lparr>evaluationDate = 45664\<rparr>" _ _ _ hs 45664 46759 "a_now eur_call"]
    by (simp add: tuesday_business_day three_years_from_tuesday maximumSerialNumber_def eur_call_def)
qed

lemma eur_call_monday:
  "call_fwd_curve flat_library eur_call st =
     (Inr (monday_frame ''EUR'' 1000), \<lparr>evaluationDate = 45663\<rparr>)"
  using eur_body_monday
  by (cases st) (simp add: call_fwd_curve_def fwd_curve_def set_evaluation_date_def eur_call_def
      from_date_monday)

lemma monday_frame_facts:
  "length (monday_frame c n) = 1096"
  "map DateFwd (monday_frame c n) = [45663..46758]"
  "monday_frame c n \<noteq> []"
  "hd (monday_frame c n) = \<lparr>Date = 45663, Currency = c, DateFwd = 45663, RateFwd = 3, Updated = n\<rparr>"
  "\<lparr>Date = 45663, Currency = c, DateFwd = 45663, RateFwd = 3, Updated = n\<rparr> \<in> set (monday_frame c n)"
proof -
  show 1: "length (monday_frame c n) = 1096"
    by (simp add: monday_frame_def forwards_def)
  show "map DateFwd (monday_frame c n) = [45663..46758]"
    unfolding monday_frame_def by (rule forwards_columns) simp
  from 1 show 3: "monday_frame c n \<noteq> []" by auto
  have u: "[45663..46758] = 45663 # [45664..46758]"
    by (subst upto_rec1) simp_all
  show 4: "hd (monday_frame c n) = \<lparr>Date = 45663, Currency = c, DateFwd = 45663, RateFwd = 3, Updated = n\<rparr>"
    unfolding monday_frame_def forwards_def by (subst (1 2) u) simp
  from 3 4 show "\<lparr>Date = 45663, Currency = c, DateFwd = 45663, RateFwd = 3, Updated = n\<rparr> \<in> set (monday_frame c n)"
    using hd_in_set by metis
qed

lemma tuesday_frame_facts:
  "tuesday_frame c n \<noteq> []"
  "hd (tuesday_frame c n) = \<lparr>Date = 45664, Currency = c, DateFwd = 45664, RateFwd = 3, Updated = n\<rparr>"
proof -
  have "length (tuesday_frame c n) = 1096"
    by (simp add: tuesday_frame_def forwards_def)
  then show "tuesday_frame c n \<noteq> []" by auto
  have u: "[45664..46759] = 45664 # [45665..46759]"
    by (subst upto_rec1) simp_all
  show "hd (tuesday_frame c n) = \<lparr>Date = 45664, Currency = c, DateFwd = 45664, RateFwd = 3, Updated = n\<rparr>"
    unfolding tuesday_frame_def forwards_def by (subst (1 2) u) simp
qed

lemma gbp_body_monday:
  "fwd_curve_body flat_library (a_now gbp_call) (a_rates gbp_call) (a_terms gbp_call)
     (a_units gbp_call) ''GBP'' \<lparr>evaluationDate = 45663\<rparr> = Inr (monday_frame ''GBP'' 2000)"
proof -
  obtain hs where "helpers_loop flat_library 45663
      \<lparr>settlement_days = 0, calendar = UnitedKingdom, day_count = Actual365Fixed,
           index = OvernightIndex ''GBP'' 0 ''GBP'' UnitedKingdom Actual365Fixed\<rparr> (a_rates gbp_call) (a_terms gbp_call)
           (a_units gbp_call) [0..<length (a_rates gbp_call)] [] = Inr hs" "hs \<noteq> []"
    using gbp_helpers by blast
  then show ?thesis
    unfolding monday_frame_def
    using flat_fwd_curve_body [OF gbp_convention, of "\<lparr>evaluationDate = 45663\<rparr>" _ _ _ hs 45663 46758 "a_now gbp_call"]
    by (simp add: monday_business_day three_years_from_monday maximumSerialNumber_def gbp_call_def)
qed

lemma gbp_data_monday:
  "fwd_curve flat_library (clock gbp_data) (map the (c_df_Value gbp_data)) (c_df_Term gbp_data)
     (c_df_Unit gbp_data) monday (ccy gbp_data) st =
   (Inr (monday_frame ''GBP'' 2000), \<lparr>evaluationDate = 45663\<rparr>)"
  using gbp_body_monday
  by (cases st) (simp add: fwd_curve_def set_evaluation_date_def gbp_data_def gbp_call_def
      from_date_monday)

lemma gbp_alone:
  "currency_loop flat_library 9 monday [gbp_data] frames st =
     (Inr (frames @ [monday_frame ''GBP'' 2000]), \<lparr>evaluationDate = 45663\<rparr>)"
proof -
  have "currency_loop flat_library 9 monday [gbp_data] frames st =
          (case fwd_curve flat_library (clock gbp_data) (map the (c_df_Value gbp_data))
                  (c_df_Term gbp_data) (c_df_Unit gbp_data) monday (ccy gbp_data) st of
             (Inl s, st1) \<Rightarrow> (Inl s, st1)
           | (Inr fwds, st1) \<Rightarrow> currency_loop flat_library 9 monday [] (frames @ [fwds]) st1)"
    by (rule currency_loop_call [where first_update = 7 and last_update = 18])
      (simp_all add: gbp_data_def na_count_def)
  then show ?thesis by (simp add: gbp_data_monday currency_loop.simps)
qed

lemma eur_run:
  "fwd_curve flat_library (a_now eur_call) (a_rates eur_call) (a_terms eur_call)
     (a_units eur_call) (a_eval_date eur_call) (a_currency eur_call) no_evaluation_date =
     (Inr (monday_frame ''EUR'' 1000), \<lparr>evaluationDate = 45663\<rparr>)"
  using eur_call_monday [of no_evaluation_date] by (simp add: call_fwd_curve_def)

lemma eur_data_X_exits:
  "fwd_curve flat_library (clock eur_data_X) (map the (c_df_Value eur_data_X))
     (c_df_Term eur_data_X) (c_df_Unit eur_data_X) monday (ccy eur_data_X) st =
   (Inl Exit, \<lparr>evaluationDate = 45663\<rparr>)"
proof -
  let ?conv = "\<lparr>settlement_days = 2, calendar = TARGET, day_count = Actual360,
           index = OvernightIndex ''EUR'' 2 ''EUR'' TARGET Actual360\<rparr>"
  have one: "[0..<1] = [0]" by simp
  have h: "\<exists>hs. helpers_loop flat_library 45663 ?conv (map the (c_df_Value eur_data_X))
             (c_df_Term eur_data_X) (c_df_Unit eur_data_X) [0..<1] [] = Inr hs"
    unfolding one
    by (simp add: eur_data_X_def eur_data_def tenor_and_rate_def time_unit_examples
        mkPeriod_def OISRateHelper_def flat_library_def)
  then obtain hs where hs: "helpers_loop flat_library 45663 ?conv (map the (c_df_Value eur_data_X))
             (c_df_Term eur_data_X) (c_df_Unit eur_data_X) [0..<1] [] = Inr hs" by blast
  have t: "tenor_and_rate (map the (c_df_Value eur_data_X)) (c_df_Term eur_data_X)
             (c_df_Unit eur_data_X) 1 = Inl Exit"
    by (simp add: eur_data_X_def eur_data_def tenor_and_rate_def time_unit_examples)
  have "fwd_curve flat_library (clock eur_data_X) (map the (c_df_Value eur_data_X))
     (c_df_Term eur_data_X) (c_df_Unit eur_data_X) monday ''EUR'' st =
     (Inl Exit, st\<lparr>evaluationDate := 45663\<rparr>)"
    by (rule fwd_curve_stops [OF from_date_monday eur_convention _ hs t])
      (simp add: eur_data_X_def eur_data_def)
  then show ?thesis
    by (cases st) (simp add: eur_data_X_def eur_data_def)
qed

lemma failing_isHoliday: "isHoliday failing_library cal = isWeekend"
  by (rule ext) (simp add: isHoliday_def failing_library_def flat_library_def)

lemma three_years_from_monday_weekends:
  "isHoliday lib cal = isWeekend \<Longrightarrow> advance_years lib cal 45663 3 = Inr 46758"
  by (simp add: advance_years_def ymd_monday mkDate_2028_1_6 isLeap_def
      isWeekend_def adjust_business_day)

lemma upto_monday: "[45663..46758] = 45663 # [45664..46758]"
  by (subst upto_rec1) simp_all

lemma failing_try_body:
  assumes "hs \<noteq> []"
  shows "try_body failing_library \<lparr>evaluationDate = 45663\<rparr> now conv currency hs =
           Inl ''1st iteration: failed at 1st alive instrument''"
proof -
  let ?st = "\<lparr>evaluationDate = 45663\<rparr>"
  have c: "PiecewiseLogCubicDiscount failing_library 0 (calendar conv) hs (day_count conv) =
             Inr (built_curve conv hs)"
    using assms
    by (simp add: PiecewiseLogCubicDiscount_def built_curve_def failing_library_def flat_library_def)
  have r: "referenceDate failing_library ?st (built_curve conv hs) = Inr 45663"
    by (simp add: referenceDate_built_curve failing_isHoliday monday_business_day)
  have d: "all_days failing_library ?st (built_curve conv hs) (calendar conv) = Inr [45663..46758]"
    using r three_years_from_monday_weekends [OF failing_isHoliday]
    by (simp add: all_days_def MakeSchedule_def)
  have n: "advance_days failing_library (calendar conv) 45663 1 = Inr 45664"
    using weekend_next_business_day [of 45663]
    by (simp add: advance_days_def failing_isHoliday maximumSerialNumber_def)
  have f: "rate_fwd failing_library ?st (built_curve conv hs) (calendar conv) (day_count conv) 45663 =
             Inl ''1st iteration: failed at 1st alive instrument''"
    using n by (simp add: rate_fwd_def forwardRate_def failing_library_def)
  have m: "map_ql (rate_fwd failing_library ?st (built_curve conv hs) (calendar conv) (day_count conv))
             [45663..46758] = Inl ''1st iteration: failed at 1st alive instrument''"
    by (subst upto_monday) (simp add: f)
  from c d m show ?thesis by (simp add: try_body_def)
qed

lemma eur_data_helpers:
  "OISRateHelper_error lib = (\<lambda>today h. None) \<Longrightarrow>
   \<exists>hs. helpers_loop lib today conv (map the (c_df_Value eur_data)) (c_df_Term eur_data)
          (c_df_Unit eur_data) [0..<length (c_df_Value eur_data)] [] = Inr hs \<and> hs \<noteq> []"
  by (simp add: eur_data_def upt_3 tenor_and_rate_def time_unit_examples mkPeriod_def
      OISRateHelper_def)

section \<open>The claims\<close>

text \<open>
  Claim C1, as the code has it. In the loop over the currencies, for a currency
  inside its update window that has rows:
  \<^item> a missing value makes the loop go on to the next currency without a call of
    \<open>fwd_curve\<close>;
  \<^item> a RuntimeError that the library raises inside the \<open>try\<close> of \<open>fwd_curve\<close> (while
    the curve is built or the forwards are read) makes \<open>fwd_curve\<close> return the empty
    frame, and the loop goes on with the next currency;
  \<^item> a currency without conventions makes \<open>fwd_curve\<close> call \<open>exit()\<close>, which ends the
    loop and the script.
\<close>

theorem failure_policy:
  assumes window: "update_window c = Some (first_update, last_update)"
      "first_update \<le> current_hour" "current_hour < last_update"
    and rows: "c_df_Value c \<noteq> []"
    and date: "from_date target_date = Inr today"
  shows "(0 < na_count (c_df_Value c) \<longrightarrow>
            currency_loop lib current_hour target_date (c # cs) frames st =
              currency_loop lib current_hour target_date cs frames st) \<and>
         (na_count (c_df_Value c) = 0 \<and> currency_convention (ccy c) = Some conv \<and>
          helpers_loop lib today conv (map the (c_df_Value c)) (c_df_Term c) (c_df_Unit c)
            [0..<length (c_df_Value c)] [] = Inr hs \<and>
          try_body lib (st\<lparr>evaluationDate := today\<rparr>) (clock c) conv (ccy c) hs = Inl msg \<longrightarrow>
            fwd_curve lib (clock c) (map the (c_df_Value c)) (c_df_Term c) (c_df_Unit c)
              target_date (ccy c) st = (Inr [], st\<lparr>evaluationDate := today\<rparr>) \<and>
            currency_loop lib current_hour target_date (c # cs) frames st =
              currency_loop lib current_hour target_date cs (frames @ [[]])
                (st\<lparr>evaluationDate := today\<rparr>)) \<and>
         (na_count (c_df_Value c) = 0 \<and> currency_convention (ccy c) = None \<longrightarrow>
            fwd_curve lib (clock c) (map the (c_df_Value c)) (c_df_Term c) (c_df_Unit c)
              target_date (ccy c) st = (Inl Exit, st\<lparr>evaluationDate := today\<rparr>) \<and>
            currency_loop lib current_hour target_date (c # cs) frames st =
              (Inl Exit, st\<lparr>evaluationDate := today\<rparr>))"
proof (intro conjI impI)
  assume "0 < na_count (c_df_Value c)"
  with window rows show "currency_loop lib current_hour target_date (c # cs) frames st =
      currency_loop lib current_hour target_date cs frames st"
    by (intro currency_loop_skip [where first_update = first_update and last_update = last_update])
next
  assume a: "na_count (c_df_Value c) = 0 \<and> currency_convention (ccy c) = Some conv \<and>
          helpers_loop lib today conv (map the (c_df_Value c)) (c_df_Term c) (c_df_Unit c)
            [0..<length (c_df_Value c)] [] = Inr hs \<and>
          try_body lib (st\<lparr>evaluationDate := today\<rparr>) (clock c) conv (ccy c) hs = Inl msg"
  then show f: "fwd_curve lib (clock c) (map the (c_df_Value c)) (c_df_Term c) (c_df_Unit c)
              target_date (ccy c) st = (Inr [], st\<lparr>evaluationDate := today\<rparr>)"
    using date by (intro fwd_curve_absorbs [where conv = conv and hs = hs and msg = msg]) simp_all
  from a window rows show "currency_loop lib current_hour target_date (c # cs) frames st =
              currency_loop lib current_hour target_date cs (frames @ [[]])
                (st\<lparr>evaluationDate := today\<rparr>)"
    by (intro currency_loop_next [where first_update = first_update and last_update = last_update] f)
      simp_all
next
  assume a: "na_count (c_df_Value c) = 0 \<and> currency_convention (ccy c) = None"
  then show f: "fwd_curve lib (clock c) (map the (c_df_Value c)) (c_df_Term c) (c_df_Unit c)
              target_date (ccy c) st = (Inl Exit, st\<lparr>evaluationDate := today\<rparr>)"
    using date by (intro fwd_curve_unsupported) simp_all
  from a window rows show "currency_loop lib current_hour target_date (c # cs) frames st =
              (Inl Exit, st\<lparr>evaluationDate := today\<rparr>)"
    by (intro currency_loop_stop [where first_update = first_update and last_update = last_update] f)
      simp_all
qed

text \<open>
  The three cases at work: EUR with a missing value is passed over and GBP is
  priced; a bootstrap that fails gives EUR the empty frame; CHF ends the loop
  before GBP is reached.
\<close>

theorem failure_policy_witness:
  "currency_loop flat_library 9 monday [eur_data_na, gbp_data] [] no_evaluation_date =
     (Inr [monday_frame ''GBP'' 2000], \<lparr>evaluationDate = 45663\<rparr>) \<and>
   fwd_curve failing_library (clock eur_data) (map the (c_df_Value eur_data)) (c_df_Term eur_data)
     (c_df_Unit eur_data) monday (ccy eur_data) no_evaluation_date =
     (Inr [], \<lparr>evaluationDate = 45663\<rparr>) \<and>
   currency_loop failing_library 9 monday [eur_data] [] no_evaluation_date =
     (Inr [[]], \<lparr>evaluationDate = 45663\<rparr>) \<and>
   currency_loop flat_library 9 monday [chf_data, gbp_data] [] no_evaluation_date =
     (Inl Exit, \<lparr>evaluationDate = 45663\<rparr>)"
proof -
  let ?conv = "\<lparr>settlement_days = 2, calendar = TARGET, day_count = Actual360,
           index = OvernightIndex ''EUR'' 2 ''EUR'' TARGET Actual360\<rparr>"
  have na: "update_window eur_data_na = Some (7, 18)" "(7::int) \<le> 9" "(9::int) < 18"
    "c_df_Value eur_data_na \<noteq> []" "0 < na_count (c_df_Value eur_data_na)"
    by (simp_all add: eur_data_na_def eur_data_def na_count_def)
  from failure_policy [OF na(1-4) from_date_monday, of flat_library "[gbp_data]" "[]"
      no_evaluation_date] na(5)
  have 1: "currency_loop flat_library 9 monday [eur_data_na, gbp_data] [] no_evaluation_date =
     (Inr [monday_frame ''GBP'' 2000], \<lparr>evaluationDate = 45663\<rparr>)"
    by (simp add: gbp_alone)
  have eur: "update_window eur_data = Some (7, 18)" "(7::int) \<le> 9" "(9::int) < 18"
    "c_df_Value eur_data \<noteq> []" "na_count (c_df_Value eur_data) = 0" "ccy eur_data = ''EUR''"
    by (simp_all add: eur_data_def na_count_def)
  obtain hs where hs: "helpers_loop failing_library 45663 ?conv (map the (c_df_Value eur_data))
      (c_df_Term eur_data) (c_df_Unit eur_data) [0..<length (c_df_Value eur_data)] [] = Inr hs"
    and ne: "hs \<noteq> []"
    using eur_data_helpers [of failing_library 45663 ?conv]
    by (auto simp add: failing_library_def flat_library_def)
  have tb: "try_body failing_library (no_evaluation_date\<lparr>evaluationDate := 45663\<rparr>)
      (clock eur_data) ?conv (ccy eur_data) hs = Inl ''1st iteration: failed at 1st alive instrument''"
    using failing_try_body [OF ne] by (simp add: no_evaluation_date_def)
  from failure_policy [OF eur(1-4) from_date_monday, of failing_library "[]" "[]"
      no_evaluation_date ?conv hs] eur(5,6) hs tb
  have 2: "fwd_curve failing_library (clock eur_data) (map the (c_df_Value eur_data))
     (c_df_Term eur_data) (c_df_Unit eur_data) monday (ccy eur_data) no_evaluation_date =
     (Inr [], \<lparr>evaluationDate = 45663\<rparr>)"
    and 3: "currency_loop failing_library 9 monday [eur_data] [] no_evaluation_date =
     (Inr [[]], \<lparr>evaluationDate = 45663\<rparr>)"
    by (simp_all add: eur_convention no_evaluation_date_def currency_loop.simps)
  have chf: "update_window chf_data = Some (7, 18)" "(7::int) \<le> 9" "(9::int) < 18"
    "c_df_Value chf_data \<noteq> []" "na_count (c_df_Value chf_data) = 0"
    "currency_convention (ccy chf_data) = None"
    by (simp_all add: chf_data_def eur_data_def na_count_def currency_convention_def)
  from failure_policy [OF chf(1-4) from_date_monday, of flat_library "[gbp_data]" "[]"
      no_evaluation_date] chf(5,6)
  have 4: "currency_loop flat_library 9 monday [chf_data, gbp_data] [] no_evaluation_date =
     (Inl Exit, \<lparr>evaluationDate = 45663\<rparr>)"
    by (simp add: no_evaluation_date_def)
  from 1 2 3 4 show ?thesis by simp
qed

text \<open>
  Against claim C1 as it is worded (no input ends the job): the currency code CHF
  makes \<open>fwd_curve\<close> exit, and the loop over CHF and GBP ends without the frame that
  GBP alone would have given.
\<close>

theorem unsupported_currency_exits:
  "fst (fwd_curve flat_library (clock chf_data) (map the (c_df_Value chf_data))
          (c_df_Term chf_data) (c_df_Unit chf_data) monday (ccy chf_data) no_evaluation_date) =
     Inl Exit \<and>
   fst (currency_loop flat_library 9 monday [chf_data, gbp_data] [] no_evaluation_date) =
     Inl Exit \<and>
   fst (currency_loop flat_library 9 monday [gbp_data] [] no_evaluation_date) =
     Inr [monday_frame ''GBP'' 2000]"
proof -
  have chf: "currency_convention (ccy chf_data) = None"
    by (simp add: chf_data_def eur_data_def currency_convention_def)
  have f: "fwd_curve flat_library (clock chf_data) (map the (c_df_Value chf_data))
          (c_df_Term chf_data) (c_df_Unit chf_data) monday (ccy chf_data) no_evaluation_date =
          (Inl Exit, no_evaluation_date\<lparr>evaluationDate := 45663\<rparr>)"
    by (rule fwd_curve_unsupported [OF from_date_monday chf])
  have "currency_loop flat_library 9 monday [chf_data, gbp_data] [] no_evaluation_date =
          (Inl Exit, no_evaluation_date\<lparr>evaluationDate := 45663\<rparr>)"
    by (rule currency_loop_stop [where first_update = 7 and last_update = 18, OF _ _ _ _ _ f])
      (simp_all add: chf_data_def eur_data_def na_count_def)
  with f show ?thesis by (simp add: gbp_alone)
qed

text \<open>
  Claim C3. For every row of a frame that \<open>fwd_curve\<close> returns, with \<open>d\<close> the forward
  date of the row and \<open>d2\<close> the next business day after \<open>d\<close> on the currency's
  calendar: the rate of the row is the logarithm of the ratio of the curve's discount
  factors at \<open>d\<close> and at \<open>d2\<close>, divided by the year fraction from \<open>d\<close> to \<open>d2\<close> in
  the currency's day count, times 100; and where the discount factor at \<open>d\<close> is
  positive, so is the one at \<open>d2\<close>, and the logarithm of the ratio is the difference
  of the logarithms.
\<close>

theorem one_day_forward_formula:
  assumes ret: "fwd_curve lib now rates terms units eval_date currency st = (Inr frame, st1)"
    and row: "row \<in> set frame"
  shows "\<exists>conv hs d2 df1 df2.
           currency_convention currency = Some conv \<and>
           helpers_loop lib (evaluationDate st1) conv rates terms units [0..<length rates] [] = Inr hs \<and>
           advance_days lib (calendar conv) (DateFwd row) 1 = Inr d2 \<and>
           DateFwd row < d2 \<and>
           discount lib (evaluationDate st1) (built_curve conv hs) (DateFwd row) = Inr df1 \<and>
           discount lib (evaluationDate st1) (built_curve conv hs) d2 = Inr df2 \<and>
           0 < df1 / df2 \<and>
           RateFwd row =
             ln (df1 / df2) / yearFraction (day_count conv) (DateFwd row) d2 * 100 \<and>
           (0 < df1 \<longrightarrow>
              0 < df2 \<and>
              RateFwd row =
                (ln df1 - ln df2) / yearFraction (day_count conv) (DateFwd row) d2 * 100)"
proof -
  from fwd_curve_Inr [OF ret]
  have body: "fwd_curve_body lib now rates terms units currency st1 = Inr frame" by blast
  from row have "frame \<noteq> []" by auto
  from fwd_curve_body_rows [OF body this] obtain conv hs ref last_day rates_fwd where
    conv: "currency_convention currency = Some conv"
    and hs: "helpers_loop lib (evaluationDate st1) conv rates terms units [0..<length rates] [] = Inr hs"
    and rs: "map_ql (rate_fwd lib st1 (built_curve conv hs) (calendar conv) (day_count conv))
               [ref..last_day] = Inr rates_fwd"
    and frame: "frame = forwards [ref..last_day] rates_fwd ref currency now"
    by blast
  let ?days = "[ref..last_day]"
  from map_ql_Inr [OF rs] have len: "length rates_fwd = length ?days"
    and each: "\<And>i. i < length ?days \<Longrightarrow>
      rate_fwd lib st1 (built_curve conv hs) (calendar conv) (day_count conv) (?days ! i) =
        Inr (rates_fwd ! i)"
    by auto
  from row obtain i where i: "i < length frame" and rowi: "row = frame ! i"
    by (auto simp add: in_set_conv_nth)
  from i frame len have i': "i < length ?days"
    using forwards_columns(3) [OF len] by simp
  have "DateFwd row = map DateFwd frame ! i" using i rowi by simp
  then have date: "DateFwd row = ?days ! i"
    using forwards_columns(1) [OF len] frame by simp
  have "RateFwd row = map RateFwd frame ! i" using i rowi by simp
  then have rate: "RateFwd row = rates_fwd ! i"
    using forwards_columns(2) [OF len] frame by simp
  from each [OF i'] date rate
  have "rate_fwd lib st1 (built_curve conv hs) (calendar conv) (day_count conv) (DateFwd row) =
          Inr (RateFwd row)"
    by simp
  then obtain d2 r where d2: "advance_days lib (calendar conv) (DateFwd row) 1 = Inr d2"
    and fr: "forwardRate lib (evaluationDate st1) (built_curve conv hs) (DateFwd row) d2
               (day_count conv) = Inr r"
    and r: "RateFwd row = r * 100"
    by (auto simp add: rate_fwd_def split: sum.splits)
  from d2 have later: "DateFwd row < d2" by (rule advance_days_later) simp
  from fr obtain df1 df2 where
    df1: "discount lib (evaluationDate st1) (built_curve conv hs) (DateFwd row) = Inr df1"
    and df2: "discount lib (evaluationDate st1) (built_curve conv hs) d2 = Inr df2"
    and ir: "impliedRate (df1 / df2) (yearFraction (day_count conv) (DateFwd row) d2) = Inr r"
    by (auto simp add: forwardRate_def split: if_splits sum.splits)
  from impliedRate_Inr [OF ir] r
  have compound: "0 < df1 / df2"
    and ratio: "RateFwd row =
      ln (df1 / df2) / yearFraction (day_count conv) (DateFwd row) d2 * 100"
    by simp_all
  have "0 < df2 \<and> RateFwd row =
      (ln df1 - ln df2) / yearFraction (day_count conv) (DateFwd row) d2 * 100"
    if "0 < df1"
  proof -
    from compound that have "0 < df2" by (simp add: zero_less_divide_iff)
    with that ratio show ?thesis by (simp add: ln_div)
  qed
  with conv hs d2 later df1 df2 compound ratio show ?thesis by blast
qed

text \<open>The first row of the EUR frame of the example, a forward of 3 percent.\<close>

theorem one_day_forward_formula_witness:
  "call_fwd_curve flat_library eur_call no_evaluation_date =
     (Inr (monday_frame ''EUR'' 1000), \<lparr>evaluationDate = 45663\<rparr>) \<and>
   \<lparr>Date = 45663, Currency = ''EUR'', DateFwd = 45663, RateFwd = 3, Updated = 1000\<rparr>
     \<in> set (monday_frame ''EUR'' 1000) \<and>
   (\<exists>conv hs d2 df1 df2.
      currency_convention (a_currency eur_call) = Some conv \<and>
      helpers_loop flat_library 45663 conv (a_rates eur_call) (a_terms eur_call)
        (a_units eur_call) [0..<length (a_rates eur_call)] [] = Inr hs \<and>
      advance_days flat_library (calendar conv) 45663 1 = Inr d2 \<and>
      discount flat_library 45663 (built_curve conv hs) 45663 = Inr df1 \<and>
      discount flat_library 45663 (built_curve conv hs) d2 = Inr df2 \<and>
      0 < df1 \<and>
      (3::real) = (ln df1 - ln df2) / yearFraction (day_count conv) 45663 d2 * 100)"
proof -
  let ?row = "\<lparr>Date = 45663, Currency = ''EUR'', DateFwd = 45663, RateFwd = 3, Updated = 1000\<rparr>"
  have mem: "?row \<in> set (monday_frame ''EUR'' 1000)" by (rule monday_frame_facts(5))
  from one_day_forward_formula [OF eur_run mem]
  obtain conv hs d2 df1 df2 where
    conv: "currency_convention (a_currency eur_call) = Some conv"
    and hs: "helpers_loop flat_library 45663 conv (a_rates eur_call) (a_terms eur_call)
        (a_units eur_call) [0..<length (a_rates eur_call)] [] = Inr hs"
    and d2: "advance_days flat_library (calendar conv) 45663 1 = Inr d2"
    and df1: "discount flat_library 45663 (built_curve conv hs) 45663 = Inr df1"
    and df2: "discount flat_library 45663 (built_curve conv hs) d2 = Inr df2"
    and imp: "0 < df1 \<longrightarrow>
       0 < df2 \<and> (3::real) = (ln df1 - ln df2) / yearFraction (day_count conv) 45663 d2 * 100"
    by auto
  from df1 have pos: "0 < df1" by (auto simp add: flat_discount)
  with imp have "(3::real) = (ln df1 - ln df2) / yearFraction (day_count conv) 45663 d2 * 100"
    by blast
  with conv hs d2 df1 df2 pos
  have "\<exists>conv hs d2 df1 df2.
      currency_convention (a_currency eur_call) = Some conv \<and>
      helpers_loop flat_library 45663 conv (a_rates eur_call) (a_terms eur_call)
        (a_units eur_call) [0..<length (a_rates eur_call)] [] = Inr hs \<and>
      advance_days flat_library (calendar conv) 45663 1 = Inr d2 \<and>
      discount flat_library 45663 (built_curve conv hs) 45663 = Inr df1 \<and>
      discount flat_library 45663 (built_curve conv hs) d2 = Inr df2 \<and>
      0 < df1 \<and>
      (3::real) = (ln df1 - ln df2) / yearFraction (day_count conv) 45663 d2 * 100"
    by blast
  with eur_call_monday [of no_evaluation_date] mem show ?thesis by blast
qed

text \<open>
  Claim C4, as the code has it. A frame with rows that \<open>fwd_curve\<close> returns has one
  row for every day from the reference date of the curve (the evaluation date,
  moved to a business day) to the day three years after the reference date (moved
  to a business day), both included, in ascending order; and a call at another
  time returns the same rows but for the column \<open>Updated\<close>.
\<close>

theorem forward_dates_daily:
  assumes ret: "fwd_curve lib now rates terms units eval_date currency st = (Inr frame, st1)"
    and ne: "frame \<noteq> []"
  shows "\<exists>conv ref last_day.
           currency_convention currency = Some conv \<and>
           adjust (isHoliday lib (calendar conv)) (evaluationDate st1) = Inr ref \<and>
           advance_years lib (calendar conv) ref 3 = Inr last_day \<and>
           map DateFwd frame = [ref..last_day] \<and>
           length frame = nat (last_day - ref) + 1 \<and>
           sorted_wrt (<) (map DateFwd frame) \<and>
           (\<forall>now'. fwd_curve lib now' rates terms units eval_date currency st =
                     (Inr (map (\<lambda>row. row\<lparr>Updated := now'\<rparr>) frame), st1))"
proof -
  from fwd_curve_Inr [OF ret] obtain today where
    today: "from_date eval_date = Inr today" and st1: "st1 = st\<lparr>evaluationDate := today\<rparr>"
    and body: "fwd_curve_body lib now rates terms units currency st1 = Inr frame" by blast
  from fwd_curve_body_rows [OF body ne] obtain conv hs ref last_day rates_fwd where
    conv: "currency_convention currency = Some conv"
    and hs: "helpers_loop lib (evaluationDate st1) conv rates terms units [0..<length rates] [] = Inr hs"
    and ok: "adjust (isHoliday lib (calendar conv)) (evaluationDate st1) = Inr ref"
    and last: "advance_years lib (calendar conv) ref 3 = Inr last_day"
    and lt: "ref < last_day"
    and rs: "map_ql (rate_fwd lib st1 (built_curve conv hs) (calendar conv) (day_count conv))
               [ref..last_day] = Inr rates_fwd"
    and frame: "frame = forwards [ref..last_day] rates_fwd ref currency now"
    by blast
  from map_ql_Inr [OF rs] have len: "length rates_fwd = length [ref..last_day]" by simp
  have dates: "map DateFwd frame = [ref..last_day]"
    using forwards_columns(1) [OF len] frame by simp
  have "length frame = length [ref..last_day]"
    using forwards_columns(3) [OF len] frame by simp
  with lt have n: "length frame = nat (last_day - ref) + 1" by simp
  have asc: "sorted_wrt (<) (map DateFwd frame)"
    unfolding dates by (rule upto_strictly_ascending)
  have again: "fwd_curve lib now' rates terms units eval_date currency st =
                 (Inr (map (\<lambda>row. row\<lparr>Updated := now'\<rparr>) frame), st1)" for now'
  proof -
    have tb: "try_body lib st1 now conv currency hs = Inr frame"
      using body conv hs ne by (auto simp add: fwd_curve_body_def split: sum.splits)
    have "try_body lib st1 now' conv currency hs =
            Inr (forwards [ref..last_day] rates_fwd ref currency now')"
      using tb frame rs ok last lt
      by (auto simp add: try_body_def all_days_def MakeSchedule_def split: sum.splits
          dest!: PiecewiseLogCubicDiscount_Inr simp add: referenceDate_built_curve)
    then have "fwd_curve_body lib now' rates terms units currency st1 =
            Inr (map (\<lambda>row. row\<lparr>Updated := now'\<rparr>) frame)"
      using conv hs frame forwards_other_time [of "[ref..last_day]" rates_fwd ref currency now' now]
      by (simp add: fwd_curve_body_def)
    with today st1 show ?thesis
      by (simp add: fwd_curve_def set_evaluation_date_def)
  qed
  from conv ok last dates n asc again show ?thesis by blast
qed

text \<open>The EUR frame of the example.\<close>

theorem forward_dates_daily_witness:
  "call_fwd_curve flat_library eur_call no_evaluation_date =
     (Inr (monday_frame ''EUR'' 1000), \<lparr>evaluationDate = 45663\<rparr>) \<and>
   monday_frame ''EUR'' 1000 \<noteq> [] \<and>
   (\<exists>conv ref last_day.
      currency_convention (a_currency eur_call) = Some conv \<and>
      adjust (isHoliday flat_library (calendar conv)) 45663 = Inr ref \<and>
      advance_years flat_library (calendar conv) ref 3 = Inr last_day \<and>
      map DateFwd (monday_frame ''EUR'' 1000) = [ref..last_day] \<and>
      length (monday_frame ''EUR'' 1000) = nat (last_day - ref) + 1 \<and>
      sorted_wrt (<) (map DateFwd (monday_frame ''EUR'' 1000)) \<and>
      (\<forall>now'. call_fwd_curve flat_library (eur_call\<lparr>a_now := now'\<rparr>) no_evaluation_date =
               (Inr (map (\<lambda>row. row\<lparr>Updated := now'\<rparr>) (monday_frame ''EUR'' 1000)),
                \<lparr>evaluationDate = 45663\<rparr>)))"
  using forward_dates_daily [OF eur_run monday_frame_facts(3)] eur_run monday_frame_facts(3)
  by (simp add: call_fwd_curve_def)

text \<open>
  Against claim C4 as it is worded (365 * 3 or 366 * 3 rows): from Monday,
  6 January 2025, to Thursday, 6 January 2028, the frame has 1096 rows, one for each
  of the 1095 days between them and one for the first day.
\<close>

theorem three_years_of_days_count:
  "fst (call_fwd_curve flat_library eur_call no_evaluation_date) =
     Inr (monday_frame ''EUR'' 1000) \<and>
   length (monday_frame ''EUR'' 1000) = 1096 \<and>
   length (monday_frame ''EUR'' 1000) \<noteq> 365 * 3 \<and>
   length (monday_frame ''EUR'' 1000) \<noteq> 366 * 3"
  by (simp add: eur_call_monday monday_frame_facts(1))

text \<open>
  Claim C6, as the code has it. For a quote whose unit is known, the magnitude is
  \<open>int(terms[i])\<close> and nothing checks its sign: an integer that fits a C integer,
  positive or not, goes into the tenor as it is; a cell that \<open>int\<close> cannot convert
  (the empty string and NaN among them) raises ValueError, which leaves
  \<open>fwd_curve\<close> uncaught when the quotes before it were accepted.
\<close>

theorem magnitude_unchecked:
  assumes "i < length units" and "i < length terms"
    and "time_unit_of (units ! i) = Some u"
  shows "(terms ! i = PyInt n \<and> - (2 ^ 31) \<le> n \<and> n < 2 ^ 31 \<longrightarrow>
            tenor_and_rate rates terms units i =
              Inr (\<lparr>p_length = n, p_units = u\<rparr>, rates ! i / 100)) \<and>
         (py_int (terms ! i) = Inl e \<longrightarrow>
            tenor_and_rate rates terms units i = Inl (Raise e) \<and>
            (from_date eval_date = Inr today \<and> currency_convention currency = Some conv \<and>
             i < length rates \<and>
             helpers_loop lib today conv rates terms units [0..<i] [] = Inr hs \<longrightarrow>
               fwd_curve lib now rates terms units eval_date currency st =
                 (Inl (Raise e), st\<lparr>evaluationDate := today\<rparr>))) \<and>
         py_int (PyStr []) = Inl ValueError \<and> py_int PyNaN = Inl ValueError"
proof -
  have a: "tenor_and_rate rates terms units i =
             Inr (\<lparr>p_length = n, p_units = u\<rparr>, rates ! i / 100)"
    if "terms ! i = PyInt n" "- (2 ^ 31) \<le> n" "n < 2 ^ 31"
    using that assms by (simp add: tenor_and_rate_def mkPeriod_def)
  have b: "tenor_and_rate rates terms units i = Inl (Raise e)" if "py_int (terms ! i) = Inl e"
    using that assms by (simp add: tenor_and_rate_def)
  have c: "py_int (PyStr []) = Inl ValueError"
    by (simp add: int_of_string_def strip_def)
  from a b c show ?thesis
    by (auto intro: fwd_curve_stops)
qed

text \<open>A magnitude of -2 years, and an empty magnitude.\<close>

theorem magnitude_unchecked_witness:
  "time_unit_of ([''Y''] ! 0) = Some Years \<and>
   tenor_and_rate [2] [PyInt (- 2)] [''Y''] 0 = Inr (\<lparr>p_length = - 2, p_units = Years\<rparr>, 2 / 100) \<and>
   py_int ([PyStr []] ! 0) = Inl ValueError \<and>
   tenor_and_rate [2] [PyStr []] [''Y''] 0 = Inl (Raise ValueError) \<and>
   fwd_curve flat_library 1000 [2] [PyStr []] [''Y''] monday ''EUR'' no_evaluation_date =
     (Inl (Raise ValueError), \<lparr>evaluationDate = 45663\<rparr>)"
proof -
  have u: "time_unit_of ([''Y''] ! 0) = Some Years" by (simp add: time_unit_of_eq)
  have p: "py_int ([PyStr []] ! 0) = Inl ValueError"
    by (simp add: int_of_string_def strip_def)
  have h: "helpers_loop flat_library 45663 \<lparr>settlement_days = 2, calendar = TARGET, day_count = Actual360,
           index = OvernightIndex ''EUR'' 2 ''EUR'' TARGET Actual360\<rparr> [2] [PyStr []] [''Y''] [0..<0] [] = Inr []"
    by simp
  from magnitude_unchecked [of 0 "[''Y'']" "[PyInt (- 2)]" Years "- 2" "[2]", OF _ _ u]
  have 1: "tenor_and_rate [2] [PyInt (- 2)] [''Y''] 0 = Inr (\<lparr>p_length = - 2, p_units = Years\<rparr>, 2 / 100)"
    by simp
  from magnitude_unchecked [of 0 "[''Y'']" "[PyStr []]" Years _ "[2]" ValueError monday 45663 "''EUR''"
      _ flat_library "[]" 1000 no_evaluation_date, OF _ _ u] p h
  have 2: "tenor_and_rate [2] [PyStr []] [''Y''] 0 = Inl (Raise ValueError)"
    and 3: "fwd_curve flat_library 1000 [2] [PyStr []] [''Y''] monday ''EUR'' no_evaluation_date =
     (Inl (Raise ValueError), \<lparr>evaluationDate = 45663\<rparr>)"
    by (simp_all add: from_date_monday eur_convention no_evaluation_date_def)
  from u p 1 2 3 show ?thesis by simp
qed

text \<open>
  Against claim C6 as it is worded (a magnitude that is not positive is refused):
  the quote of -2 years gives a tenor of -2 years for the helper's constructor.
\<close>

theorem negative_magnitude_accepted:
  "tenor_and_rate [2] [PyInt (- 2)] [''Y''] 0 =
     Inr (\<lparr>p_length = - 2, p_units = Years\<rparr>, 2 / 100)"
  by (simp add: tenor_and_rate_def time_unit_of_eq mkPeriod_def)

text \<open>
  Claim C7, as the code has it. The unit strings D, W, M and Y, in upper or lower
  case, give days, weeks, months and years, and every other string gives no unit.
  At the first quote without a unit, when the quotes before it were accepted,
  \<open>fwd_curve\<close> calls \<open>exit()\<close>; and a call of \<open>fwd_curve\<close> that exits ends the loop
  over the currencies, whatever currencies are left.
\<close>

theorem unit_mapping:
  "time_unit_of u =
     (if u = ''D'' \<or> u = ''d'' then Some Days
      else if u = ''W'' \<or> u = ''w'' then Some Weeks
      else if u = ''M'' \<or> u = ''m'' then Some Months
      else if u = ''Y'' \<or> u = ''y'' then Some Years
      else None) \<and>
   (from_date eval_date = Inr today \<and> currency_convention currency = Some conv \<and>
    i < length rates \<and> i < length units \<and>
    helpers_loop lib today conv rates terms units [0..<i] [] = Inr hs \<and>
    time_unit_of (units ! i) = None \<longrightarrow>
      fwd_curve lib now rates terms units eval_date currency st =
        (Inl Exit, st\<lparr>evaluationDate := today\<rparr>)) \<and>
   (update_window c = Some (first_update, last_update) \<and>
    first_update \<le> current_hour \<and> current_hour < last_update \<and>
    c_df_Value c \<noteq> [] \<and> na_count (c_df_Value c) = 0 \<and>
    fwd_curve lib (clock c) (map the (c_df_Value c)) (c_df_Term c) (c_df_Unit c)
      target_date (ccy c) st = (Inl Exit, st1) \<longrightarrow>
      currency_loop lib current_hour target_date (c # cs) frames st = (Inl Exit, st1))"
proof (intro conjI impI)
  show "time_unit_of u =
     (if u = ''D'' \<or> u = ''d'' then Some Days
      else if u = ''W'' \<or> u = ''w'' then Some Weeks
      else if u = ''M'' \<or> u = ''m'' then Some Months
      else if u = ''Y'' \<or> u = ''y'' then Some Years
      else None)"
    by (rule time_unit_of_eq)
next
  assume a: "from_date eval_date = Inr today \<and> currency_convention currency = Some conv \<and>
    i < length rates \<and> i < length units \<and>
    helpers_loop lib today conv rates terms units [0..<i] [] = Inr hs \<and>
    time_unit_of (units ! i) = None"
  then have "tenor_and_rate rates terms units i = Inl Exit"
    by (simp add: tenor_and_rate_def)
  with a show "fwd_curve lib now rates terms units eval_date currency st =
        (Inl Exit, st\<lparr>evaluationDate := today\<rparr>)"
    by (intro fwd_curve_stops [where i = i and hs = hs and conv = conv]) simp_all
next
  assume "update_window c = Some (first_update, last_update) \<and>
    first_update \<le> current_hour \<and> current_hour < last_update \<and>
    c_df_Value c \<noteq> [] \<and> na_count (c_df_Value c) = 0 \<and>
    fwd_curve lib (clock c) (map the (c_df_Value c)) (c_df_Term c) (c_df_Unit c)
      target_date (ccy c) st = (Inl Exit, st1)"
  then show "currency_loop lib current_hour target_date (c # cs) frames st = (Inl Exit, st1)"
    by (intro currency_loop_stop [where first_update = first_update and last_update = last_update])
      simp_all
qed

text \<open>The unit y, and the unit X in the second EUR quote.\<close>

theorem unit_mapping_witness:
  "time_unit_of ''y'' = Some Years \<and> time_unit_of ''X'' = None \<and>
   fwd_curve flat_library 1000 [350 / 100, 355 / 100, 340 / 100] [PyInt 1, PyInt 3, PyInt 5]
     [''M'', ''X'', ''Y''] monday ''EUR'' no_evaluation_date =
     (Inl Exit, \<lparr>evaluationDate = 45663\<rparr>) \<and>
   currency_loop flat_library 9 monday [eur_data_X, gbp_data] [] no_evaluation_date =
     (Inl Exit, \<lparr>evaluationDate = 45663\<rparr>)"
proof -
  have x: "fwd_curve flat_library (clock eur_data_X) (map the (c_df_Value eur_data_X))
     (c_df_Term eur_data_X) (c_df_Unit eur_data_X) monday (ccy eur_data_X) no_evaluation_date =
     (Inl Exit, \<lparr>evaluationDate = 45663\<rparr>)"
    by (rule eur_data_X_exits)
  have w: "update_window eur_data_X = Some (7, 18) \<and> (7::int) \<le> 9 \<and> (9::int) < 18 \<and>
     c_df_Value eur_data_X \<noteq> [] \<and> na_count (c_df_Value eur_data_X) = 0"
    by (simp add: eur_data_X_def eur_data_def na_count_def)
  from unit_mapping [of "''y''"] have 1: "time_unit_of ''y'' = Some Years" by simp
  from unit_mapping [of "''X''"] have 2: "time_unit_of ''X'' = None" by simp
  from unit_mapping [where c = eur_data_X and first_update = 7 and last_update = 18
      and current_hour = 9 and lib = flat_library and target_date = monday
      and st = no_evaluation_date and ?st1.0 = "\<lparr>evaluationDate = 45663\<rparr>"
      and cs = "[gbp_data]" and frames = "[]"] x w
  have 3: "currency_loop flat_library 9 monday [eur_data_X, gbp_data] [] no_evaluation_date =
     (Inl Exit, \<lparr>evaluationDate = 45663\<rparr>)"
    by simp
  from x have 4: "fwd_curve flat_library 1000 [350 / 100, 355 / 100, 340 / 100]
     [PyInt 1, PyInt 3, PyInt 5] [''M'', ''X'', ''Y''] monday ''EUR'' no_evaluation_date =
     (Inl Exit, \<lparr>evaluationDate = 45663\<rparr>)"
    by (simp add: eur_data_X_def eur_data_def)
  from 1 2 3 4 show ?thesis by simp
qed

text \<open>
  Against claim C7 as it is worded (the failure stays with that currency): the
  unit X in a EUR quote ends the loop over EUR and GBP without the frame that GBP
  alone would have given.
\<close>

theorem invalid_unit_ends_job:
  "fst (currency_loop flat_library 9 monday [eur_data_X, gbp_data] [] no_evaluation_date) =
     Inl Exit \<and>
   fst (currency_loop flat_library 9 monday [gbp_data] [] no_evaluation_date) =
     Inr [monday_frame ''GBP'' 2000]"
proof -
  have "currency_loop flat_library 9 monday [eur_data_X, gbp_data] [] no_evaluation_date =
     (Inl Exit, \<lparr>evaluationDate = 45663\<rparr>)"
    by (rule currency_loop_stop [where first_update = 7 and last_update = 18,
          OF _ _ _ _ _ eur_data_X_exits])
      (simp_all add: eur_data_X_def eur_data_def na_count_def)
  then show ?thesis by (simp add: gbp_alone)
qed

text \<open>
  Claim C8, as the code has it. Every call of \<open>fwd_curve\<close> writes the library's
  global evaluation date before it reads it. So what a call returns does not depend
  on the state it finds, two calls one after the other return what each returns
  alone, and two calls given the same evaluation date return the same when line 24
  of both runs before the rest of either.
\<close>

theorem evaluation_date_shared:
  "fst (fwd_curve lib now rates terms units eval_date currency st) =
     fst (fwd_curve lib now rates terms units eval_date currency st') \<and>
   (from_date eval_date = Inr today \<longrightarrow>
      snd (fwd_curve lib now rates terms units eval_date currency st) =
        st\<lparr>evaluationDate := today\<rparr>) \<and>
   one_after_the_other lib a b st =
     (fst (call_fwd_curve lib a st), fst (call_fwd_curve lib b st)) \<and>
   (a_eval_date a = a_eval_date b \<longrightarrow>
      interleaved lib a b st = one_after_the_other lib a b st)"
proof (intro conjI impI)
  show "fst (fwd_curve lib now rates terms units eval_date currency st) =
     fst (fwd_curve lib now rates terms units eval_date currency st')"
    by (rule fwd_curve_state_independent)
next
  assume "from_date eval_date = Inr today"
  then show "snd (fwd_curve lib now rates terms units eval_date currency st) =
        st\<lparr>evaluationDate := today\<rparr>"
    by (simp add: fwd_curve_def set_evaluation_date_def)
next
  show seq: "one_after_the_other lib a b st =
     (fst (call_fwd_curve lib a st), fst (call_fwd_curve lib b st))"
    using fwd_curve_state_independent
    by (auto simp add: one_after_the_other_def call_fwd_curve_def split: prod.splits)
  assume same: "a_eval_date a = a_eval_date b"
  show "interleaved lib a b st = one_after_the_other lib a b st"
  proof (cases "from_date (a_eval_date a)")
    case (Inl msg)
    then show ?thesis
      unfolding seq
      by (simp add: interleaved_def call_fwd_curve_def fwd_curve_def set_evaluation_date_def)
  next
    case (Inr today)
    with same show ?thesis
      unfolding seq
      by (cases st)
        (simp add: interleaved_def call_fwd_curve_def fwd_curve_def set_evaluation_date_def)
  qed
qed

text \<open>The EUR call and the GBP call, both on the Monday.\<close>

theorem evaluation_date_shared_witness:
  "from_date monday = Inr 45663 \<and>
   snd (fwd_curve flat_library 1000 (a_rates eur_call) (a_terms eur_call) (a_units eur_call)
          monday ''EUR'' no_evaluation_date) = \<lparr>evaluationDate = 45663\<rparr> \<and>
   a_eval_date eur_call = a_eval_date (gbp_call\<lparr>a_eval_date := monday\<rparr>) \<and>
   interleaved flat_library eur_call (gbp_call\<lparr>a_eval_date := monday\<rparr>) no_evaluation_date =
     one_after_the_other flat_library eur_call (gbp_call\<lparr>a_eval_date := monday\<rparr>)
       no_evaluation_date"
proof -
  have same: "a_eval_date eur_call = a_eval_date (gbp_call\<lparr>a_eval_date := monday\<rparr>)"
    by (simp add: eur_call_def)
  from evaluation_date_shared [of flat_library 1000 "a_rates eur_call" "a_terms eur_call"
      "a_units eur_call" monday "''EUR''" no_evaluation_date no_evaluation_date 45663
      eur_call "gbp_call\<lparr>a_eval_date := monday\<rparr>"] same
  show ?thesis
    by (simp add: from_date_monday no_evaluation_date_def)
qed

text \<open>
  Against claim C8 as it is worded (no shared state, any interleaving): when the
  GBP call, for the Tuesday, runs its line 24 between line 24 and the rest of the EUR
  call, for the Monday, the EUR frame is the one of the Tuesday.
\<close>

theorem interleaving_changes_result:
  "fst (interleaved flat_library eur_call gbp_call no_evaluation_date) =
     Inr (tuesday_frame ''EUR'' 1000) \<and>
   fst (one_after_the_other flat_library eur_call gbp_call no_evaluation_date) =
     Inr (monday_frame ''EUR'' 1000) \<and>
   Date (hd (tuesday_frame ''EUR'' 1000)) = 45664 \<and>
   Date (hd (monday_frame ''EUR'' 1000)) = 45663"
proof -
  have i: "fst (interleaved flat_library eur_call gbp_call no_evaluation_date) =
     Inr (tuesday_frame ''EUR'' 1000)"
    using eur_body_tuesday
    by (simp add: interleaved_def set_evaluation_date_def from_date_monday from_date_tuesday
        eur_call_def gbp_call_def no_evaluation_date_def)
  have s: "fst (one_after_the_other flat_library eur_call gbp_call no_evaluation_date) =
     Inr (monday_frame ''EUR'' 1000)"
    by (simp add: one_after_the_other_def eur_call_monday)
  from i s show ?thesis
    by (simp add: monday_frame_facts(4) tuesday_frame_facts(2))
qed

text \<open>
  Claim C9. Without quotes, for a currency with conventions and an evaluation date
  that the library accepts, and when the library refuses to build a curve from no
  helpers, \<open>fwd_curve\<close> returns the empty frame.
\<close>

theorem empty_quote_set_absorbed:
  assumes "from_date eval_date = Inr today"
    and "currency_convention currency = Some conv"
    and "PiecewiseLogCubicDiscount_error lib (built_curve conv []) = Some msg"
  shows "fwd_curve lib now [] terms units eval_date currency st =
           (Inr [], st\<lparr>evaluationDate := today\<rparr>)"
proof -
  have "try_body lib (st\<lparr>evaluationDate := today\<rparr>) now conv currency [] = Inl msg"
    using assms(3) by (simp add: try_body_def PiecewiseLogCubicDiscount_def built_curve_def)
  with assms(1,2) show ?thesis
    by (intro fwd_curve_absorbs [where hs = "[]" and msg = msg]) simp_all
qed

text \<open>EUR on the Monday, without quotes.\<close>

theorem empty_quote_set_absorbed_witness:
  "from_date monday = Inr 45663 \<and>
   PiecewiseLogCubicDiscount_error flat_library
     (built_curve \<lparr>settlement_days = 2, calendar = TARGET, day_count = Actual360,
           index = OvernightIndex ''EUR'' 2 ''EUR'' TARGET Actual360\<rparr> []) =
     Some ''no bootstrap helpers given'' \<and>
   fwd_curve flat_library 1000 [] [] [] monday ''EUR'' no_evaluation_date =
     (Inr [], \<lparr>evaluationDate = 45663\<rparr>)"
proof -
  have e: "PiecewiseLogCubicDiscount_error flat_library
     (built_curve \<lparr>settlement_days = 2, calendar = TARGET, day_count = Actual360,
           index = OvernightIndex ''EUR'' 2 ''EUR'' TARGET Actual360\<rparr> []) =
     Some ''no bootstrap helpers given''"
    by (simp add: flat_library_def built_curve_def)
  from empty_quote_set_absorbed [OF from_date_monday eur_convention e,
      of 1000 "[]" "[]" no_evaluation_date]
  show ?thesis using e by (simp add: from_date_monday no_evaluation_date_def)
qed

text \<open>
  Claim C10. All rows of a frame that \<open>fwd_curve\<close> returns have the same \<open>Date\<close>,
  which is the reference date of the curve, the currency of the call in \<open>Currency\<close>,
  and the one clock reading of line 98 in \<open>Updated\<close>.
\<close>

theorem batch_columns_constant:
  assumes ret: "fwd_curve lib now rates terms units eval_date currency st = (Inr frame, st1)"
  shows "\<exists>ref. (\<forall>row \<in> set frame. Date row = ref \<and> Currency row = currency \<and> Updated row = now) \<and>
           (frame \<noteq> [] \<longrightarrow>
              (\<exists>conv hs. currency_convention currency = Some conv \<and>
                 referenceDate lib st1 (built_curve conv hs) = Inr ref))"
proof (cases "frame = []")
  case True
  then show ?thesis by simp
next
  case False
  from fwd_curve_Inr [OF ret]
  have body: "fwd_curve_body lib now rates terms units currency st1 = Inr frame" by blast
  from fwd_curve_body_rows [OF body False] obtain conv hs ref last_day rates_fwd where
    conv: "currency_convention currency = Some conv"
    and hs: "helpers_loop lib (evaluationDate st1) conv rates terms units [0..<length rates] [] = Inr hs"
    and ok: "adjust (isHoliday lib (calendar conv)) (evaluationDate st1) = Inr ref"
    and frame: "frame = forwards [ref..last_day] rates_fwd ref currency now"
    by blast
  from frame have "\<forall>row \<in> set frame. Date row = ref \<and> Currency row = currency \<and> Updated row = now"
    using forwards_constant_columns by blast
  moreover from ok have "referenceDate lib st1 (built_curve conv hs) = Inr ref"
    by (simp add: referenceDate_built_curve)
  ultimately show ?thesis using conv by blast
qed

text \<open>The EUR frame of the example.\<close>

theorem batch_columns_constant_witness:
  "call_fwd_curve flat_library eur_call no_evaluation_date =
     (Inr (monday_frame ''EUR'' 1000), \<lparr>evaluationDate = 45663\<rparr>) \<and>
   monday_frame ''EUR'' 1000 \<noteq> [] \<and>
   (\<exists>ref. list_all (\<lambda>row. Date row = ref \<and> Currency row = a_currency eur_call \<and>
                       Updated row = a_now eur_call)
            (monday_frame ''EUR'' 1000) \<and>
          (\<exists>conv hs. currency_convention (a_currency eur_call) = Some conv \<and>
             referenceDate flat_library \<lparr>evaluationDate = 45663\<rparr> (built_curve conv hs) = Inr ref))"
  using batch_columns_constant [OF eur_run] eur_run monday_frame_facts(3)
  by (simp add: list_all_iff call_fwd_curve_def)

end
